theory Spec2Isabelle
  imports Main
begin

section \<open>Text\<close>

text \<open>
  A JavaScript string is a sequence of UTF-16 code units.  The model holds a text as a
  \<^typ>\<open>string\<close>: the bytes of its UTF-8 encoding, so that a character beyond U+FFFF, which
  is a pair of code units in JavaScript, is four bytes here.  A string that holds half of such
  a pair has no UTF-8 encoding and is not among the texts of the model: the texts that come
  from the document and from the backend are taken to be well formed, and the sources can
  make such a string of them only where \<open>substring\<close> cuts a pair, which is marked
  there.  The string functions of
  the platform that the sources call are defined on the bytes.  \<open>toLowerCase\<close> maps the
  letters \<open>A\<close> to \<open>Z\<close> only, where the platform also maps the capital letters beyond
  ASCII; it is applied to the colour of a pressing, for the name of a style class.
\<close>

definition startsWith :: "string \<Rightarrow> string \<Rightarrow> bool" where
  "startsWith s p = (take (length p) s = p)"

fun str_includes :: "string \<Rightarrow> string \<Rightarrow> bool" where
  "str_includes [] p = (p = [])"
| "str_includes (c # s) p = (startsWith (c # s) p \<or> str_includes s p)"

text \<open>
  The number of code units that a byte stands for: none for a continuation byte
  (\<open>10xxxxxx\<close>), two for the first byte of a four-byte character, one for every other first
  byte.  \<open>s.length\<close> is the sum over the bytes of \<open>s\<close>.
\<close>

definition is_continuation :: "char \<Rightarrow> bool" where
  "is_continuation c = (128 \<le> (of_char c :: nat) \<and> (of_char c :: nat) < 192)"

definition code_units :: "char \<Rightarrow> nat" where
  "code_units c = (if is_continuation c then 0 else if 240 \<le> (of_char c :: nat) then 2 else 1)"

definition str_length :: "string \<Rightarrow> nat" where
  "str_length s = sum_list (map code_units s)"

text \<open>
  \<open>s.substring(i, j)\<close> is the text from code unit \<open>i\<close> up to code unit \<open>j\<close> of
  \<open>s\<close>, the smaller of the two taken first, and as much of it as \<open>s\<close> has.  When a cut
  falls between the two code units of a pair, the result holds half a pair: that is
  \<open>None\<close> here.  The sources pass the result to \<open>encodeURIComponent\<close> and to nothing
  else, and \<open>encodeURIComponent\<close> throws a \<open>URIError\<close> on such a text.
\<close>

fun take_units :: "nat \<Rightarrow> string \<Rightarrow> string option" where
  "take_units n [] = Some []"
| "take_units n (c # s) =
     (if is_continuation c then map_option ((#) c) (take_units n s)
      else if n = 0 then Some []
      else if code_units c \<le> n then map_option ((#) c) (take_units (n - code_units c) s)
      else None)"

fun drop_units :: "nat \<Rightarrow> string \<Rightarrow> string option" where
  "drop_units n [] = Some []"
| "drop_units n (c # s) =
     (if is_continuation c then drop_units n s
      else if n = 0 then Some (c # s)
      else if code_units c \<le> n then drop_units (n - code_units c) s
      else None)"

definition substring :: "nat \<Rightarrow> nat \<Rightarrow> string \<Rightarrow> string option" where
  "substring i j s =
     (case drop_units (min i j) s of
        None \<Rightarrow> None
      | Some t \<Rightarrow> take_units (max i j - min i j) t)"

definition lower_char :: "char \<Rightarrow> char" where
  "lower_char c =
     (if 65 \<le> (of_char c :: nat) \<and> (of_char c :: nat) \<le> 90
      then char_of ((of_char c :: nat) + 32) else c)"

definition toLowerCase :: "string \<Rightarrow> string" where
  "toLowerCase s = map lower_char s"

text \<open>\<open>s.replace(' ', '-')\<close> with a string pattern replaces the first space only.\<close>

fun replace_space :: "string \<Rightarrow> string" where
  "replace_space [] = []"
| "replace_space (c # s) = (if c = CHR '' '' then CHR ''-'' # s else c # replace_space s)"

text \<open>
  The white space that \<open>trim\<close> and \<open>parseInt\<close> remove: the characters U+0009 to U+000D,
  U+0020, U+00A0, U+1680, U+2000 to U+200A, U+2028, U+2029, U+202F, U+205F, U+3000 and U+FEFF,
  each as the bytes of its encoding.
\<close>

definition white_space :: "string list" where
  "white_space =
     [[CHR 0x09], [CHR 0x0A], [CHR 0x0B], [CHR 0x0C], [CHR 0x0D], [CHR 0x20],
      [CHR 0xC2, CHR 0xA0],
      [CHR 0xE1, CHR 0x9A, CHR 0x80],
      [CHR 0xE2, CHR 0x80, CHR 0x80], [CHR 0xE2, CHR 0x80, CHR 0x81], [CHR 0xE2, CHR 0x80, CHR 0x82],
      [CHR 0xE2, CHR 0x80, CHR 0x83], [CHR 0xE2, CHR 0x80, CHR 0x84], [CHR 0xE2, CHR 0x80, CHR 0x85],
      [CHR 0xE2, CHR 0x80, CHR 0x86], [CHR 0xE2, CHR 0x80, CHR 0x87], [CHR 0xE2, CHR 0x80, CHR 0x88],
      [CHR 0xE2, CHR 0x80, CHR 0x89], [CHR 0xE2, CHR 0x80, CHR 0x8A],
      [CHR 0xE2, CHR 0x80, CHR 0xA8], [CHR 0xE2, CHR 0x80, CHR 0xA9], [CHR 0xE2, CHR 0x80, CHR 0xAF],
      [CHR 0xE2, CHR 0x81, CHR 0x9F],
      [CHR 0xE3, CHR 0x80, CHR 0x80],
      [CHR 0xEF, CHR 0xBB, CHR 0xBF]]"

text \<open>
  The length of the member of \<open>ps\<close> that \<open>s\<close> starts with, or zero; and \<open>s\<close> without
  the members of \<open>ps\<close> that it starts with.
\<close>

definition leading :: "string list \<Rightarrow> string \<Rightarrow> nat" where
  "leading ps s = (case find (startsWith s) ps of None \<Rightarrow> 0 | Some p \<Rightarrow> length p)"

function strip :: "string list \<Rightarrow> string \<Rightarrow> string" where
  "strip ps s = (if leading ps s = 0 then s else strip ps (drop (leading ps s) s))"
  by pat_completeness auto

termination
proof (relation "measure (\<lambda>(ps, s). length s)")
  show "wf (measure (\<lambda>(ps, s). length s))" by simp
next
  fix ps :: "string list" and s :: string
  assume a: "leading ps s \<noteq> 0"
  then obtain p where p: "find (startsWith s) ps = Some p" and l: "length p \<noteq> 0"
    by (auto simp: leading_def split: option.splits)
  from p have "startsWith s p" by (auto simp: find_Some_iff)
  with l have "s \<noteq> []" by (auto simp: startsWith_def)
  with a show "((ps, drop (leading ps s) s), (ps, s)) \<in> measure (\<lambda>(ps, s). length s)"
    by simp
qed

declare strip.simps [simp del]

definition trimStart :: "string \<Rightarrow> string" where
  "trimStart s = strip white_space s"

definition trimEnd :: "string \<Rightarrow> string" where
  "trimEnd s = rev (strip (map rev white_space) (rev s))"

definition trim :: "string \<Rightarrow> string" where
  "trim s = trimEnd (trimStart s)"

subsection \<open>Numbers\<close>

text \<open>
  A JavaScript number is a double.  The numbers of the sources are counts, years and
  identifiers, and an \<^typ>\<open>int\<close> of the model stands for the double of that value.
  \<open>round_double\<close> gives the value of the double nearest to a natural number, the one with
  the even mantissa when two are equally near; from \<open>2^1024\<close> on the result stands for
  \<open>Infinity\<close>.
\<close>

fun bit_length :: "nat \<Rightarrow> nat" where
  "bit_length n = (if n = 0 then 0 else Suc (bit_length (n div 2)))"

declare bit_length.simps [simp del]

definition round_double :: "nat \<Rightarrow> nat" where
  "round_double n =
     (if n < 2 ^ 53 then n
      else
        (let e = bit_length n - 53;
             q = n div 2 ^ e;
             r = n mod 2 ^ e
         in if 2 ^ e < 2 * r \<or> (2 * r = 2 ^ e \<and> odd q) then (q + 1) * 2 ^ e else q * 2 ^ e))"

definition digit_char :: "nat \<Rightarrow> char" where
  "digit_char d = char_of (48 + d)"

fun show_nat :: "nat \<Rightarrow> string" where
  "show_nat n = (if n < 10 then [digit_char n] else show_nat (n div 10) @ [digit_char (n mod 10)])"

declare show_nat.simps [simp del]

text \<open>
  \<open>String(x)\<close>, and \<open>${x}\<close> in a template, for a double \<open>x\<close> that holds a natural
  number.  The digits are those of the decimal number with the fewest significant digits that
  rounds to \<open>x\<close>, the one nearest to \<open>x\<close> when there are several: up to \<open>2^53\<close> that is
  \<open>x\<close> itself.  From \<open>10^21\<close> on the exponent is written.
\<close>

definition shortest_decimal :: "nat \<Rightarrow> nat" where
  "shortest_decimal x =
     (if x < 2 ^ 53 then x
      else
        (let n = length (show_nat x);
             candidates =
               concat (map (\<lambda>k. let p = 10 ^ (n - k);
                                    lo = (x div p) * p;
                                    hi = lo + p
                                in if x - lo < hi - x \<or> (x - lo = hi - x \<and> even (x div p))
                                   then [lo, hi] else [hi, lo])
                           [1..<18])
         in case find (\<lambda>v. round_double v = x) candidates of None \<Rightarrow> x | Some v \<Rightarrow> v))"

definition show_double :: "nat \<Rightarrow> string" where
  "show_double x =
     (let v = shortest_decimal x;
          digits = show_nat v;
          significant = rev (dropWhile (\<lambda>c. c = CHR ''0'') (rev digits))
      in if v < 10 ^ 21 then digits
         else take 1 significant
              @ (if length significant = 1 then [] else ''.'' @ drop 1 significant)
              @ ''e+'' @ show_nat (length digits - 1))"

definition show_int :: "int \<Rightarrow> string" where
  "show_int i = (if i < 0 then ''-'' @ show_double (nat (- i)) else show_double (nat i))"

text \<open>
  What \<open>parseInt\<close> returns: \<open>NaN\<close>, a double that holds an integer, or an infinity.
  \<open>-0\<close> is not told from \<open>0\<close>: both are falsy, equal, and printed as \<open>0\<close>.
\<close>

datatype number = NaN | Finite int | Infinity | Neg_Infinity

definition show_number :: "number \<Rightarrow> string" where
  "show_number x =
     (case x of
        NaN \<Rightarrow> ''NaN''
      | Finite i \<Rightarrow> show_int i
      | Infinity \<Rightarrow> ''Infinity''
      | Neg_Infinity \<Rightarrow> ''-Infinity'')"



subsection \<open>\<open>parseInt\<close>\<close>






subsection \<open>Escaping\<close>

text \<open>
  \<open>escapeHTML\<close> of \<open>ui.js\<close> returns the empty string for a falsy argument, and
  otherwise writes the text into a fresh \<open>div\<close> as \<open>textContent\<close> and reads the
  \<open>innerHTML\<close> back.  The platform serialises a text node by replacing \<open>&\<close>, the
  no-break space (U+00A0, bytes C2 A0), \<open>&lt;\<close> and \<open>&gt;\<close>; quotes stay as they are.
\<close>

fun serialize_text :: "string \<Rightarrow> string" where
  "serialize_text [] = []"
| "serialize_text (c # s) =
     (if c = CHR ''&'' then ''&amp;'' @ serialize_text s
      else if c = CHR ''<'' then ''&lt;'' @ serialize_text s
      else if c = CHR ''>'' then ''&gt;'' @ serialize_text s
      else if c = CHR 0xC2 \<and> s \<noteq> [] \<and> hd s = CHR 0xA0 then ''&nbsp;'' @ serialize_text (tl s)
      else c # serialize_text s)"

definition escapeHTML :: "string \<Rightarrow> string" where
  "escapeHTML text = (if text = [] then [] else serialize_text text)"

text \<open>
  \<open>encodeURIComponent\<close>: the unreserved characters stay, every other byte of the UTF-8
  encoding becomes \<open>%XX\<close> with upper-case hexadecimal digits.
\<close>

definition hex_char :: "nat \<Rightarrow> char" where
  "hex_char d = (if d < 10 then char_of (48 + d) else char_of (55 + d))"

definition uri_unreserved :: "char \<Rightarrow> bool" where
  "uri_unreserved c =
     (let k = (of_char c :: nat) in
      (65 \<le> k \<and> k \<le> 90) \<or> (97 \<le> k \<and> k \<le> 122) \<or> (48 \<le> k \<and> k \<le> 57)
      \<or> c \<in> set ''-_.!~*()'' \<or> c = CHR 0x27)"

definition encode_char :: "char \<Rightarrow> string" where
  "encode_char c =
     (if uri_unreserved c then [c]
      else [CHR ''%'', hex_char ((of_char c :: nat) div 16), hex_char ((of_char c :: nat) mod 16)])"

definition encodeURIComponent :: "string \<Rightarrow> string" where
  "encodeURIComponent s = concat (map encode_char s)"


section \<open>Data\<close>

text \<open>
  What reading a property of an object gives when the property may be missing:
  \<open>undefined\<close> when the object has no such property, \<open>null\<close>, or a value.  Strict
  inequality \<open>!==\<close> of two such readings is \<open>\<noteq>\<close>.
\<close>

datatype 'a optional = Undefined | Null | Value 'a

text \<open>
  The object that the form collects (\<open>vinilData\<close> in \<open>main.js\<close>) and the Record that
  the backend returns have the same properties; the Record adds the identifier.  They differ
  in \<open>ano\<close>.  In the form object it is what \<open>parseInt\<close> returns, a \<^typ>\<open>number\<close>;
  \<open>selo\<close> is a text or \<open>null\<close> there, and \<open>capa\<close> is a text or missing.  In a
  Record \<open>ano\<close> is an integer, and \<open>ano\<close>, \<open>selo\<close> and \<open>capa\<close> may each be
  \<open>null\<close> or missing.
\<close>

record 'n vinilData =
  artista :: string
  album :: string
  cor_prensagem :: string
  ano :: 'n
  midia :: string
  selo :: "string optional"
  capa :: "string optional"

record vinil = "int optional vinilData" +
  vinil_id :: int

text \<open>
  Every exception of the sources is a value of one type: the sources read nothing of an
  exception but its \<open>message\<close>.
\<close>

datatype js_error = JsError (message: string)

text \<open>
  What \<open>fetchAPI\<close> resolves to: the empty object \<open>{}\<close> that it makes of a 204 response,
  or the JSON document of the response, read at the type the endpoint's contract gives it.
\<close>

datatype 'a payload = Empty_object | Json 'a

text \<open>
  Reading a property of what \<open>fetchAPI\<close> resolved to: \<open>undefined\<close> on the empty
  object.  \<open>property\<close> reads a property that every Record has, \<open>optional_property\<close>
  one that a Record may lack.
\<close>

definition property :: "('a \<Rightarrow> 'b) \<Rightarrow> 'a payload \<Rightarrow> 'b optional" where
  "property f p = (case p of Empty_object \<Rightarrow> Undefined | Json v \<Rightarrow> Value (f v))"

definition optional_property :: "('a \<Rightarrow> 'b optional) \<Rightarrow> 'a payload \<Rightarrow> 'b optional" where
  "optional_property f p = (case p of Empty_object \<Rightarrow> Undefined | Json v \<Rightarrow> f v)"

text \<open>
  The body of an error response is any JSON document (its numbers are integers here).  An object
  is the list of its properties, each name once.
\<close>

datatype json =
    JNull
  | JBool bool
  | JNum int
  | JStr string
  | JArr "json list"
  | JObj "(string \<times> json) list"

fun truthy :: "json \<Rightarrow> bool" where
  "truthy JNull = False"
| "truthy (JBool b) = b"
| "truthy (JNum n) = (n \<noteq> 0)"
| "truthy (JStr s) = (s \<noteq> [])"
| "truthy (JArr xs) = True"
| "truthy (JObj kvs) = True"

fun join :: "string \<Rightarrow> string list \<Rightarrow> string" where
  "join sep [] = []"
| "join sep [x] = x"
| "join sep (x # y # ys) = x @ sep @ join sep (y # ys)"

text \<open>
  \<open>String(v)\<close>, which \<open>new Error(v)\<close> applies to its argument: an array is its
  elements joined by commas, with \<open>null\<close> as the empty text.
\<close>

fun to_string :: "json \<Rightarrow> string" where
  "to_string JNull = ''null''"
| "to_string (JBool b) = (if b then ''true'' else ''false'')"
| "to_string (JNum n) = show_int n"
| "to_string (JStr s) = s"
| "to_string (JArr xs) = join '','' (map (\<lambda>x. if x = JNull then [] else to_string x) xs)"
| "to_string (JObj kvs) = ''[object Object]''"

text \<open>
  \<open>errorData.message\<close>: a \<open>TypeError\<close> on \<open>null\<close>, the property of an object,
  and \<open>undefined\<close> on every other value.
\<close>

definition null_property_error :: js_error where
  "null_property_error = JsError ''Cannot read properties of null (reading 'message')''"

fun get_message :: "json \<Rightarrow> js_error + json option" where
  "get_message JNull = Inl null_property_error"
| "get_message (JObj kvs) = Inr (map_of kvs ''message'')"
| "get_message v = Inr None"

section \<open>The remote data gateway (\<open>api.js\<close>)\<close>

definition API_BASE_URL :: string where
  "API_BASE_URL = ''http://localhost:5000''"

definition API_PREFIX :: string where
  "API_PREFIX = ''/api/v1''"

text \<open>
  A request as \<open>fetch\<close> receives it.  The body is the object that \<open>JSON.stringify\<close>
  turns into the text sent.  The network is the environment: a function takes the outcome of
  each request it may issue as an argument, and the requests issued are appended to a log.
\<close>

record request =
  req_method :: string
  req_url :: string
  req_headers :: "(string \<times> string) list"
  req_body :: "number vinilData option"

type_synonym netlog = "request list"

text \<open>
  The \<open>options\<close> argument of \<open>fetchAPI\<close>; no caller passes headers.  \<open>fetch\<close> sends
  \<open>GET\<close> when no method is given.
\<close>

record options =
  opt_method :: "string option"
  opt_body :: "number vinilData option"

definition no_options :: options where
  "no_options = \<lparr>opt_method = None, opt_body = None\<rparr>"

text \<open>
  What comes back: \<open>fetch\<close> rejects (the transport failed), or it resolves to a response
  whose \<open>ok\<close> flag is false (a status outside 200 to 299) or true, with the status and with
  what \<open>response.json()\<close> gives: an exception when the body is not JSON.
\<close>

datatype 'a fetch_outcome =
    Transport_failure js_error
  | Response_not_ok nat "js_error + json"
  | Response_ok nat "js_error + 'a"

definition http_error_message :: "nat \<Rightarrow> json option \<Rightarrow> string" where
  "http_error_message status m =
     (case m of
        None \<Rightarrow> ''Erro HTTP: '' @ show_nat status
      | Some v \<Rightarrow> if truthy v then to_string v else ''Erro HTTP: '' @ show_nat status)"

definition fetchAPI ::
  "'a fetch_outcome \<Rightarrow> string \<Rightarrow> options \<Rightarrow> netlog \<Rightarrow> (js_error + 'a payload) \<times> netlog" where
  "fetchAPI outcome endpoint opts log =
     (let url = API_BASE_URL @ API_PREFIX @ endpoint;
          log' = log @ [\<lparr>req_method = (case opt_method opts of None \<Rightarrow> ''GET'' | Some m \<Rightarrow> m),
                          req_url = url,
                          req_headers = [(''Content-Type'', ''application/json'')],
                          req_body = opt_body opts\<rparr>]
      in (case outcome of
            Transport_failure e \<Rightarrow> Inl e
          | Response_not_ok status parsed \<Rightarrow>
              (let errorData = (case parsed of Inl _ \<Rightarrow> JObj [] | Inr j \<Rightarrow> j)
               in case get_message errorData of
                    Inl e \<Rightarrow> Inl e
                  | Inr m \<Rightarrow> Inl (JsError (http_error_message status m)))
          | Response_ok status parsed \<Rightarrow>
              if status = 204 then Inr Empty_object
              else (case parsed of Inl e \<Rightarrow> Inl e | Inr v \<Rightarrow> Inr (Json v)),
          log'))"

definition getVinis :: "vinil list fetch_outcome \<Rightarrow> netlog \<Rightarrow> (js_error + vinil list payload) \<times> netlog" where
  "getVinis outcome log = fetchAPI outcome ''/vinis/'' no_options log"

text \<open>
  The identifier that \<open>getVinilById\<close> and \<open>deletarVinil\<close> receive is a number: the
  \<open>id\<close> of a Record, or what \<open>parseInt\<close> made of a text.
\<close>

definition getVinilById :: "vinil fetch_outcome \<Rightarrow> number \<Rightarrow> netlog \<Rightarrow> (js_error + vinil payload) \<times> netlog" where
  "getVinilById outcome i log = fetchAPI outcome (''/vinis/'' @ show_number i) no_options log"

definition buscarPorArtista ::
  "vinil list fetch_outcome \<Rightarrow> string \<Rightarrow> netlog \<Rightarrow> (js_error + vinil list payload) \<times> netlog" where
  "buscarPorArtista outcome artista_text log =
     fetchAPI outcome (''/vinis/search?artista='' @ encodeURIComponent artista_text) no_options log"

definition buscarPorAlbum ::
  "vinil list fetch_outcome \<Rightarrow> string \<Rightarrow> netlog \<Rightarrow> (js_error + vinil list payload) \<times> netlog" where
  "buscarPorAlbum outcome album_text log =
     fetchAPI outcome (''/vinis/search?album='' @ encodeURIComponent album_text) no_options log"


subsection \<open>The combined search\<close>

text \<open>
  A JavaScript \<open>Map\<close> keeps its entries in the order in which their keys were first
  inserted; \<open>set\<close> on a key that is present replaces the value where it stands.
  \<open>new Map(entries)\<close> calls \<open>set\<close> for each entry in turn.
\<close>

fun Map_set :: "'k \<Rightarrow> 'v \<Rightarrow> ('k \<times> 'v) list \<Rightarrow> ('k \<times> 'v) list" where
  "Map_set k v [] = [(k, v)]"
| "Map_set k v ((k', v') # m) = (if k' = k then (k', v) # m else (k', v') # Map_set k v m)"

definition new_Map :: "('k \<times> 'v) list \<Rightarrow> ('k \<times> 'v) list" where
  "new_Map entries = foldl (\<lambda>m (k, v). Map_set k v m) [] entries"

definition Map_values :: "('k \<times> 'v) list \<Rightarrow> 'v list" where
  "Map_values m = map snd m"

definition vinisUnicos :: "vinil list \<Rightarrow> vinil list" where
  "vinisUnicos todosResultados = Map_values (new_Map (map (\<lambda>v. (vinil_id v, v)) todosResultados))"

text \<open>The spread \<open>[...x]\<close> throws a \<open>TypeError\<close> on the empty object.\<close>

definition spread :: "'a list payload \<Rightarrow> js_error + 'a list" where
  "spread p = (case p of Empty_object \<Rightarrow> Inl (JsError ''object is not iterable'') | Json xs \<Rightarrow> Inr xs)"

text \<open>
  \<open>buscarVinis\<close> of \<open>api.js\<close>.  Both requests are issued before either answer is
  awaited, the one by artist first.  \<open>.catch(() => [])\<close> turns a failed sub-query into the
  empty array; the \<open>catch\<close> around the whole body returns the empty array too.
\<close>

definition api_buscarVinis ::
  "vinil list fetch_outcome \<Rightarrow> vinil list fetch_outcome \<Rightarrow> string \<Rightarrow> netlog
     \<Rightarrow> (js_error + vinil list) \<times> netlog" where
  "api_buscarVinis outcome_artista outcome_album termo log =
     (let (byArtista, log1) = buscarPorArtista outcome_artista termo log;
          (byAlbum, log2) = buscarPorAlbum outcome_album termo log1;
          resultadosArtista = (case byArtista of Inl _ \<Rightarrow> Json [] | Inr p \<Rightarrow> p);
          resultadosAlbum = (case byAlbum of Inl _ \<Rightarrow> Json [] | Inr p \<Rightarrow> p);
          attempt =
            (case spread resultadosArtista of
               Inl e \<Rightarrow> Inl e
             | Inr xs \<Rightarrow>
                 (case spread resultadosAlbum of
                    Inl e \<Rightarrow> Inl e
                  | Inr ys \<Rightarrow> Inr (vinisUnicos (xs @ ys))))
      in (case attempt of Inl _ \<Rightarrow> Inr [] | Inr vinis \<Rightarrow> Inr vinis, log2))"

subsection \<open>The other operations\<close>

text \<open>
  The statistics document.  Each property may be absent; an entry of \<open>por_cor\<close> is a pair
  of \<open>cor_prensagem\<close> and \<open>quantidade\<close>, an entry of \<open>por_artista\<close> a pair of
  \<open>artista\<close> and \<open>quantidade\<close>.
\<close>

record stats =
  total_vinis :: "int option"
  por_cor :: "(string \<times> int) list option"
  por_artista :: "(string \<times> int) list option"

definition getStatsCores :: "stats fetch_outcome \<Rightarrow> netlog \<Rightarrow> (js_error + stats payload) \<times> netlog" where
  "getStatsCores outcome log = fetchAPI outcome ''/stats/'' no_options log"

definition adicionarVinil ::
  "vinil fetch_outcome \<Rightarrow> number vinilData \<Rightarrow> netlog \<Rightarrow> (js_error + vinil payload) \<times> netlog" where
  "adicionarVinil outcome data log =
     fetchAPI outcome ''/vinis/'' \<lparr>opt_method = Some ''POST'', opt_body = Some data\<rparr> log"

text \<open>The only caller passes the text of \<open>form.dataset.editId\<close> as the identifier.\<close>

definition atualizarVinil ::
  "vinil fetch_outcome \<Rightarrow> string \<Rightarrow> number vinilData \<Rightarrow> netlog \<Rightarrow> (js_error + vinil payload) \<times> netlog" where
  "atualizarVinil outcome id_text data log =
     fetchAPI outcome (''/vinis/'' @ id_text) \<lparr>opt_method = Some ''PUT'', opt_body = Some data\<rparr> log"

definition deletarVinil :: "unit fetch_outcome \<Rightarrow> number \<Rightarrow> netlog \<Rightarrow> (js_error + unit payload) \<times> netlog" where
  "deletarVinil outcome i log =
     fetchAPI outcome (''/vinis/'' @ show_number i) \<lparr>opt_method = Some ''DELETE'', opt_body = None\<rparr> log"

text \<open>
  \<open>compararPrensagens\<close> of \<open>api.js\<close> fetches the two Records one after the other (the
  second only when the first has arrived) and compares them field by field with \<open>!==\<close>.
\<close>

record diferencas =
  dif_artista :: bool
  dif_album :: bool
  dif_cor_prensagem :: bool
  dif_ano :: bool
  dif_selo :: bool
  dif_midia :: bool

record comparacao =
  vinil_a :: "vinil payload"
  vinil_b :: "vinil payload"
  diferencas :: diferencas

definition comparar :: "vinil payload \<Rightarrow> vinil payload \<Rightarrow> comparacao" where
  "comparar vinilA vinilB =
     \<lparr>vinil_a = vinilA,
      vinil_b = vinilB,
      diferencas =
        \<lparr>dif_artista = (property artista vinilA \<noteq> property artista vinilB),
         dif_album = (property album vinilA \<noteq> property album vinilB),
         dif_cor_prensagem = (property cor_prensagem vinilA \<noteq> property cor_prensagem vinilB),
         dif_ano = (optional_property ano vinilA \<noteq> optional_property ano vinilB),
         dif_selo = (optional_property selo vinilA \<noteq> optional_property selo vinilB),
         dif_midia = (property midia vinilA \<noteq> property midia vinilB)\<rparr>\<rparr>"

definition api_compararPrensagens ::
  "vinil fetch_outcome \<Rightarrow> vinil fetch_outcome \<Rightarrow> number \<Rightarrow> number \<Rightarrow> netlog
     \<Rightarrow> (js_error + comparacao) \<times> netlog" where
  "api_compararPrensagens outcome_a outcome_b idA idB log =
     (let (ra, log1) = getVinilById outcome_a idA log
      in case ra of
           Inl e \<Rightarrow> (Inl e, log1)
         | Inr vinilA \<Rightarrow>
             (let (rb, log2) = getVinilById outcome_b idB log1
              in case rb of
                   Inl e \<Rightarrow> (Inl e, log2)
                 | Inr vinilB \<Rightarrow> (Inr (comparar vinilA vinilB), log2)))"

text \<open>
  \<open>checkAPIHealth\<close> calls \<open>fetch\<close> itself, on the base address and with no options,
  and answers whether the transport worked, whatever the status.
\<close>

definition checkAPIHealth :: "'a fetch_outcome \<Rightarrow> netlog \<Rightarrow> bool \<times> netlog" where
  "checkAPIHealth outcome log =
     (case outcome of Transport_failure e \<Rightarrow> False | _ \<Rightarrow> True,
      log @ [\<lparr>req_method = ''GET'', req_url = API_BASE_URL, req_headers = [], req_body = None\<rparr>])"

section \<open>The view renderer (\<open>ui.js\<close>)\<close>

text \<open>
  The document is \<open>index.html\<close>, which is not among the sources: the model holds the
  elements that the functions below read or write, each under the name of its \<open>id\<close>, and
  takes every one of them to exist.  The transition effects (\<open>animations.js\<close>, GSAP) and
  the timers that show and dismiss a notification change none of this state and are not
  modelled; neither is the console.
\<close>

record card =
  className :: string
  dataset_vinilId :: string
  innerHTML :: string
  click_opens :: int

record notification =
  notification_className :: string
  notification_innerHTML :: string

record form_values =
  form_artista :: string
  form_album :: string
  form_cor :: string
  form_ano :: string
  form_midia :: string
  form_selo :: string

text \<open>
  The state: the elements of the document, the \<open>appState\<close> object of \<open>main.js\<close>
  and the log of the requests issued.  \<open>form_defaults\<close> holds the values that
  \<open>form.reset()\<close> restores; \<open>active_modals\<close> lists the modals that carry the class
  \<open>active\<close>.
\<close>

record world =
  requests :: netlog
  currentVinis :: "vinil list payload"
  isSearching :: bool
  loading_display :: string
  no_results_display :: string
  vinis_grid :: "card list"
  total_vinis_text :: string
  total_raridades_text :: string
  total_artistas_text :: string
  ano_mais_antigo_text :: string
  stats_container :: string
  notifications :: "notification option"
  active_modals :: "string list"
  detalhes_content :: string
  vinil_id_a :: string
  vinil_id_b :: string
  comparacao_resultado_display :: string
  comparacao_output :: "comparacao option"
  form :: form_values
  form_defaults :: form_values
  form_editId :: "string option"
  submit_disabled :: bool
  submit_innerHTML :: string
  form_capa_value :: string
  preview_src :: string
  preview_display :: string
  btn_remove_display :: string
  placeholder_display :: string

subsection \<open>Cards and the detail panel\<close>

definition corMap :: "(string \<times> string) list" where
  "corMap =
     [(''Preto'', ''#1a1a1a''),
      (''Colorido'', ''linear-gradient(135deg, #e91e63, #9c27b0)''),
      (''Transparente'', ''#2196f3''),
      (''Roxo'', ''#9c27b0'')]"

text \<open>
  \<open>corMap[cor]\<close> on an object literal also finds what every object inherits.  Such a
  value is a function or an object, so it is truthy and the default is not taken, and the
  call \<open>bgStyle.includes\<close> that follows throws a \<open>TypeError\<close>.
\<close>

definition inherited_properties :: "string list" where
  "inherited_properties =
     [''constructor'', ''hasOwnProperty'', ''isPrototypeOf'', ''propertyIsEnumerable'',
      ''toLocaleString'', ''toString'', ''valueOf'', ''__proto__'', ''__defineGetter__'',
      ''__defineSetter__'', ''__lookupGetter__'', ''__lookupSetter__'']"

definition bgStyle_of :: "string \<Rightarrow> js_error + string" where
  "bgStyle_of cor =
     (case map_of corMap cor of
        Some style \<Rightarrow> Inr style
      | None \<Rightarrow>
          if cor \<in> set inherited_properties
          then Inl (JsError ''bgStyle.includes is not a function'')
          else Inr ''#333333'')"

text \<open>
  \<open>${n}\<close> for a number that may be \<open>null\<close> or missing, and \<open>x || fallback\<close> for
  a text that may be.
\<close>

definition number_text :: "int optional \<Rightarrow> string" where
  "number_text n =
     (case n of Undefined \<Rightarrow> ''undefined'' | Null \<Rightarrow> ''null'' | Value i \<Rightarrow> show_int i)"

definition text_or :: "string optional \<Rightarrow> string \<Rightarrow> string" where
  "text_or x fallback = (case x of Value s \<Rightarrow> if s = [] then fallback else s | _ \<Rightarrow> fallback)"

text \<open>
  The placeholder images.  \<open>encodeURIComponent\<close> throws when \<open>substring\<close> has cut a
  pair of code units.
\<close>

definition gradient_defs :: string where
  "gradient_defs =
     ''%3ClinearGradient id='grad' x1='0%25' y1='0%25' x2='100%25' y2='100%25'%3E%3Cstop offset='0%25' style='stop-color:%23e91e63'/%3E%3Cstop offset='100%25' style='stop-color:%239c27b0'/%3E%3C/linearGradient%3E''"

definition card_placeholder :: "vinil \<Rightarrow> bool \<Rightarrow> string \<Rightarrow> js_error + string" where
  "card_placeholder vinil isGradient bgStyle =
     (case substring 0 15 (album vinil) of
        None \<Rightarrow> Inl (JsError ''URI malformed'')
      | Some title \<Rightarrow>
           Inr (''data:image/svg+xml,%3Csvg width='400' height='400' xmlns='http://www.w3.org/2000/svg'%3E%3Cdefs%3E''
            @ (if isGradient then gradient_defs else [])
            @ ''%3C/defs%3E%3Crect width='400' height='400' fill='' @ [CHR 0x27]
            @ (if isGradient then ''url(%23grad)'' else bgStyle)
            @ [CHR 0x27] @ ''/%3E%3Ccircle cx='200' cy='200' r='150' fill='none' stroke='rgba(255,255,255,0.1)' stroke-width='2'/%3E%3Ccircle cx='200' cy='200' r='100' fill='none' stroke='rgba(255,255,255,0.1)' stroke-width='2'/%3E%3Ccircle cx='200' cy='200' r='20' fill='rgba(255,255,255,0.2)'/%3E%3Ctext x='200' y='220' font-family='Arial' font-size='16' fill='rgba(255,255,255,0.6)' text-anchor='middle'%3E''
            @ encodeURIComponent title
            @ ''%3C/text%3E%3C/svg%3E''))"

text \<open>The template of a card, with the two local constants it interpolates.\<close>

definition card_html :: "vinil \<Rightarrow> string \<Rightarrow> string \<Rightarrow> string" where
  \<open>card_html vinil imgUrl corClass =
        ''\<newline>''
        @ ''        <div class="vinil-card-image-wrapper">\<newline>''
        @ ''            <img src="''
        @ imgUrl
        @ ''" alt="''
        @ album vinil
        @ ''" class="vinil-card-image">\<newline>''
        @ ''            <div class="vinil-card-badges">\<newline>''
        @ ''                <span class="badge badge-''
        @ corClass
        @ ''">''
        @ escapeHTML (cor_prensagem vinil)
        @ ''</span>\<newline>''
        @ ''                ''
        @ (if midia vinil = ''LP'' then ''<span class="badge badge-lp">LP</span>'' else [])
        @ ''\<newline>''
        @ ''            </div>\<newline>''
        @ ''        </div>\<newline>''
        @ ''        <div class="vinil-card-content">\<newline>''
        @ ''            <h3 class="vinil-card-title">''
        @ escapeHTML (album vinil)
        @ ''</h3>\<newline>''
        @ ''            <p class="vinil-card-artist">''
        @ escapeHTML (artista vinil)
        @ ''</p>\<newline>''
        @ ''            <div class="vinil-card-details">\<newline>''
        @ ''                <div class="vinil-detail-item">'' @ [CHR 0xF0, CHR 0x9F, CHR 0x93, CHR 0x85] @ '' ''
        @ number_text (ano vinil)
        @ ''</div>\<newline>''
        @ ''                <div class="vinil-detail-item">'' @ [CHR 0xF0, CHR 0x9F, CHR 0x92, CHR 0xBF] @ '' ''
        @ escapeHTML (text_or (selo vinil) ''N/A'')
        @ ''</div>\<newline>''
        @ ''            </div>\<newline>''
        @ ''        </div>\<newline>''
        @ ''    ''\<close>

text \<open>
  \<open>createVinilCard\<close>.  The constant \<open>midiaText\<close> of the source is never read and is
  left out.
\<close>

definition createVinilCard :: "vinil \<Rightarrow> js_error + card" where
  \<open>createVinilCard vinil =
     (case bgStyle_of (cor_prensagem vinil) of
        Inl e \<Rightarrow> Inl e
      | Inr bgStyle \<Rightarrow>
          (let isGradient = str_includes bgStyle ''gradient'';
               image =
                 (case capa vinil of
                    Value c \<Rightarrow>
                      if c = [] then card_placeholder vinil isGradient bgStyle
                      else if startsWith c ''/uploads'' then Inr (''http://localhost:5000'' @ c)
                      else Inr c
                  | _ \<Rightarrow> card_placeholder vinil isGradient bgStyle);
               corClass = replace_space (toLowerCase (cor_prensagem vinil))
           in case image of
                Inl e \<Rightarrow> Inl e
              | Inr imgUrl \<Rightarrow>
                  Inr \<lparr>className = ''vinil-card'',
                       dataset_vinilId = show_int (vinil_id vinil),
                       innerHTML = card_html vinil imgUrl corClass,
                       click_opens = vinil_id vinil\<rparr>))\<close>

definition details_placeholder :: "vinil \<Rightarrow> bool \<Rightarrow> string \<Rightarrow> js_error + string" where
  "details_placeholder vinil isGradient bgStyle =
     (case substring 0 20 (album vinil) of
        None \<Rightarrow> Inl (JsError ''URI malformed'')
      | Some title \<Rightarrow>
           Inr (''data:image/svg+xml,%3Csvg width='600' height='600' xmlns='http://www.w3.org/2000/svg'%3E%3Cdefs%3E''
            @ (if isGradient then gradient_defs else [])
            @ ''%3C/defs%3E%3Crect width='600' height='600' fill='' @ [CHR 0x27]
            @ (if isGradient then ''url(%23grad)'' else bgStyle)
            @ [CHR 0x27] @ ''/%3E%3Ccircle cx='300' cy='300' r='220' fill='none' stroke='rgba(255,255,255,0.1)' stroke-width='3'/%3E%3Ccircle cx='300' cy='300' r='150' fill='none' stroke='rgba(255,255,255,0.1)' stroke-width='2'/%3E%3Ccircle cx='300' cy='300' r='30' fill='rgba(255,255,255,0.2)'/%3E%3Ctext x='300' y='320' font-family='Arial' font-size='20' fill='rgba(255,255,255,0.7)' text-anchor='middle'%3E''
            @ encodeURIComponent title
            @ ''%3C/text%3E%3C/svg%3E''))"

definition raridadeMap :: "(string \<times> nat) list" where
  "raridadeMap = [(''Preto'', 1), (''Transparente'', 2), (''Roxo'', 3), (''Colorido'', 4)]"

definition star :: string where
  "star = [CHR 0xE2, CHR 0xAD, CHR 0x90]"

text \<open>The template of the detail panel.\<close>

definition details_html :: "vinil \<Rightarrow> string \<Rightarrow> string \<Rightarrow> string" where
  \<open>details_html vinil svgPlaceholder estrelas =
        ''\<newline>''
        @ ''        <div class="detalhes-vinil">\<newline>''
        @ ''            <div class="detalhes-vinil-header">\<newline>''
        @ ''                <h2 class="detalhes-vinil-title">''
        @ escapeHTML (album vinil)
        @ ''</h2>\<newline>''
        @ ''            </div>\<newline>''
        @ ''            <div class="detalhes-vinil-content">\<newline>''
        @ ''                <div class="detalhes-vinil-image-wrapper">\<newline>''
        @ ''                    <img src="''
        @ svgPlaceholder
        @ ''" alt="''
        @ album vinil
        @ ''" class="detalhes-vinil-image">\<newline>''
        @ ''                </div>\<newline>''
        @ ''                <div class="detalhes-vinil-info">\<newline>''
        @ ''                    <div class="detalhes-vinil-artist-section">\<newline>''
        @ ''                        <h3 class="detalhes-vinil-artist">''
        @ escapeHTML (artista vinil)
        @ ''</h3>\<newline>''
        @ ''                        <p class="detalhes-vinil-subtitle">''
        @ escapeHTML (album vinil)
        @ '' (''
        @ number_text (ano vinil)
        @ '')</p>\<newline>''
        @ ''                    </div>\<newline>''
        @ ''                    \<newline>''
        @ ''                    <div class="detalhes-vinil-meta-grid">\<newline>''
        @ ''                        <div class="detalhes-meta-item">\<newline>''
        @ ''                            <span class="detalhes-meta-icon">'' @ [CHR 0xF0, CHR 0x9F, CHR 0x92, CHR 0xBF] @ ''</span>\<newline>''
        @ ''                            <div class="detalhes-meta-text">\<newline>''
        @ ''                                <span class="detalhes-meta-label">Cor</span>\<newline>''
        @ ''                                <span class="detalhes-meta-value">''
        @ escapeHTML (if cor_prensagem vinil = [] then ''N/A'' else cor_prensagem vinil)
        @ ''</span>\<newline>''
        @ ''                            </div>\<newline>''
        @ ''                        </div>\<newline>''
        @ ''                        \<newline>''
        @ ''                        <div class="detalhes-meta-item">\<newline>''
        @ ''                            <span class="detalhes-meta-icon">'' @ [CHR 0xF0, CHR 0x9F, CHR 0x93, CHR 0x85] @ ''</span>\<newline>''
        @ ''                            <div class="detalhes-meta-text">\<newline>''
        @ ''                                <span class="detalhes-meta-label">Ano</span>\<newline>''
        @ ''                                <span class="detalhes-meta-value">''
        @ number_text (ano vinil)
        @ ''</span>\<newline>''
        @ ''                            </div>\<newline>''
        @ ''                        </div>\<newline>''
        @ ''                        \<newline>''
        @ ''                        <div class="detalhes-meta-item">\<newline>''
        @ ''                            <span class="detalhes-meta-icon">'' @ [CHR 0xF0, CHR 0x9F, CHR 0x8F, CHR 0xA2] @ ''</span>\<newline>''
        @ ''                            <div class="detalhes-meta-text">\<newline>''
        @ ''                                <span class="detalhes-meta-label">Selo</span>\<newline>''
        @ ''                                <span class="detalhes-meta-value">''
        @ escapeHTML (text_or (selo vinil) ''N/A'')
        @ ''</span>\<newline>''
        @ ''                            </div>\<newline>''
        @ ''                        </div>\<newline>''
        @ ''                        \<newline>''
        @ ''                        <div class="detalhes-meta-item">\<newline>''
        @ ''                            <span class="detalhes-meta-icon">'' @ [CHR 0xF0, CHR 0x9F, CHR 0x92, CHR 0xBD] @ ''</span>\<newline>''
        @ ''                            <div class="detalhes-meta-text">\<newline>''
        @ ''                                <span class="detalhes-meta-label">M'' @ [CHR 0xC3, CHR 0xAD] @ ''dia</span>\<newline>''
        @ ''                                <span class="detalhes-meta-value">''
        @ escapeHTML (if midia vinil = [] then ''LP'' else midia vinil)
        @ ''</span>\<newline>''
        @ ''                            </div>\<newline>''
        @ ''                        </div>\<newline>''
        @ ''                        \<newline>''
        @ ''                        <div class="detalhes-meta-item">\<newline>''
        @ ''                            <span class="detalhes-meta-icon">'' @ [CHR 0xF0, CHR 0x9F, CHR 0x8E, CHR 0x80] @ ''</span>\<newline>''
        @ ''                            <div class="detalhes-meta-text">\<newline>''
        @ ''                                <span class="detalhes-meta-label">Raridade</span>\<newline>''
        @ ''                                <span class="detalhes-meta-value">''
        @ estrelas
        @ ''</span>\<newline>''
        @ ''                            </div>\<newline>''
        @ ''                        </div>\<newline>''
        @ ''                    </div>\<newline>''
        @ ''                    \<newline>''
        @ ''                    <button class="btn-rare-item">\<newline>''
        @ ''                        <span>'' @ [CHR 0xE2, CHR 0xAD, CHR 0x90] @ ''</span> Item Raro na Cole'' @ [CHR 0xC3, CHR 0xA7, CHR 0xC3, CHR 0xA3] @ ''o\<newline>''
        @ ''                    </button>\<newline>''
        @ ''                </div>\<newline>''
        @ ''            </div>\<newline>''
        @ ''            \<newline>''
        @ ''            <div class="detalhes-vinil-tracklist">\<newline>''
        @ ''                <h4 class="tracklist-title">'' @ [CHR 0xF0, CHR 0x9F, CHR 0x8E, CHR 0xB5] @ '' Tracklist</h4>\<newline>''
        @ ''                <div class="tracklist-grid">\<newline>''
        @ ''                    <div class="tracklist-item"><span class="track-number">01</span> Speak to Me</div>\<newline>''
        @ ''                    <div class="tracklist-item"><span class="track-number">02</span> Breathe</div>\<newline>''
        @ ''                    <div class="tracklist-item"><span class="track-number">03</span> On the Run</div>\<newline>''
        @ ''                    <div class="tracklist-item"><span class="track-number">04</span> Time</div>\<newline>''
        @ ''                    <div class="tracklist-item"><span class="track-number">05</span> The Great Gig in the Sky</div>\<newline>''
        @ ''                    <div class="tracklist-item"><span class="track-number">06</span> Money</div>\<newline>''
        @ ''                    <div class="tracklist-item"><span class="track-number">07</span> Us and Them</div>\<newline>''
        @ ''                    <div class="tracklist-item"><span class="track-number">08</span> Any Colour You Like</div>\<newline>''
        @ ''                </div>\<newline>''
        @ ''            </div>\<newline>''
        @ ''        </div>\<newline>''
        @ ''    ''\<close>

text \<open>
  \<open>createVinilDetailsHTML\<close>.  An inherited property has already made
  \<open>bgStyle.includes\<close> throw when \<open>raridadeMap\<close> is read.
\<close>

definition createVinilDetailsHTML :: "vinil \<Rightarrow> js_error + string" where
  \<open>createVinilDetailsHTML vinil =
     (case bgStyle_of (cor_prensagem vinil) of
        Inl e \<Rightarrow> Inl e
      | Inr bgStyle \<Rightarrow>
          (let isGradient = str_includes bgStyle ''gradient'';
               nivelRaridade = (case map_of raridadeMap (cor_prensagem vinil) of None \<Rightarrow> 1 | Some n \<Rightarrow> n);
               estrelas = concat (replicate (min nivelRaridade 5) star)
           in case details_placeholder vinil isGradient bgStyle of
                Inl e \<Rightarrow> Inl e
              | Inr svgPlaceholder \<Rightarrow> Inr (details_html vinil svgPlaceholder estrelas)))\<close>

subsection \<open>Notifications\<close>

text \<open>
  \<open>showNotification\<close> removes the notification in the document, if there is one, and adds
  a new one.
\<close>

definition showNotification :: "string \<Rightarrow> string \<Rightarrow> world \<Rightarrow> world" where
  \<open>showNotification msg type w =
     w\<lparr>notifications :=
         Some \<lparr>notification_className = ''notification notification-'' @ type,
               notification_innerHTML =
        ''\<newline>''
        @ ''        <span class="notification-icon">''
        @ (if type = ''success'' then [CHR 0xE2, CHR 0x9C, CHR 0x93] else [CHR 0xE2, CHR 0x9A, CHR 0xA0])
        @ ''</span>\<newline>''
        @ ''        <span class="notification-message">''
        @ escapeHTML msg
        @ ''</span>\<newline>''
        @ ''    ''\<rparr>\<rparr>\<close>

definition showError :: "string \<Rightarrow> world \<Rightarrow> world" where
  "showError msg w = showNotification msg ''error'' w"


subsection \<open>The grid\<close>

text \<open>
  \<open>vinis.forEach\<close>: a card is appended for each Record in turn; an exception of
  \<open>createVinilCard\<close> ends the loop and leaves the cards appended so far.
\<close>

fun append_cards :: "vinil list \<Rightarrow> card list \<Rightarrow> js_error option \<times> card list" where
  "append_cards [] grid = (None, grid)"
| "append_cards (vinil # rest) grid =
     (case createVinilCard vinil of
        Inl e \<Rightarrow> (Some e, grid)
      | Inr c \<Rightarrow> append_cards rest (grid @ [c]))"

definition updateMiniStats :: "vinil list \<Rightarrow> world \<Rightarrow> world" where
  "updateMiniStats vinis w =
     (if vinis = [] then w
      else
        (let raridades =
               length (filter (\<lambda>v. cor_prensagem v \<noteq> [] \<and>
                                    (str_includes (cor_prensagem v) ''Colorido''
                                     \<or> str_includes (cor_prensagem v) ''Transparente'')) vinis);
             artistas = length (remdups (map artista vinis));
             anos = concat (map (\<lambda>v. case ano v of Value a \<Rightarrow> if a = 0 then [] else [a] | _ \<Rightarrow> []) vinis);
             maisAntigo = (case anos of [] \<Rightarrow> ''----'' | a # rest \<Rightarrow> show_int (fold min rest a))
         in w\<lparr>total_vinis_text := show_nat (length vinis),
               total_raridades_text := show_nat raridades,
               total_artistas_text := show_nat artistas,
               ano_mais_antigo_text := maisAntigo\<rparr>))"

text \<open>
  \<open>renderVinisGrid\<close>.  The argument is \<open>None\<close> for \<open>null\<close> or \<open>undefined\<close>.  The
  empty object has no \<open>length\<close> and no \<open>forEach\<close>: the call of the latter throws.  The
  result says whether the function threw.
\<close>

definition renderVinisGrid :: "vinil list payload option \<Rightarrow> world \<Rightarrow> js_error option \<times> world" where
  "renderVinisGrid vinis w =
     (let w1 = w\<lparr>loading_display := ''none'', vinis_grid := []\<rparr>
      in case vinis of
           None \<Rightarrow> (None, w1\<lparr>no_results_display := ''flex''\<rparr>)
         | Some Empty_object \<Rightarrow>
             (Some (JsError ''vinis.forEach is not a function''), w1\<lparr>no_results_display := ''none''\<rparr>)
         | Some (Json list) \<Rightarrow>
             if list = [] then (None, w1\<lparr>no_results_display := ''flex''\<rparr>)
             else
               (let w2 = w1\<lparr>no_results_display := ''none''\<rparr>;
                    (thrown, grid) = append_cards list (vinis_grid w2);
                    w3 = w2\<lparr>vinis_grid := grid\<rparr>
                in case thrown of
                     Some e \<Rightarrow> (Some e, w3)
                   | None \<Rightarrow> (None, updateMiniStats list w3)))"

definition showLoading :: "world \<Rightarrow> world" where
  "showLoading w = w\<lparr>loading_display := ''block'', no_results_display := ''none'', vinis_grid := []\<rparr>"

subsection \<open>Statistics\<close>

definition showStatsLoading :: "world \<Rightarrow> world" where
  \<open>showStatsLoading w =
     w\<lparr>stats_container := ''<div class="stats-loading">Carregando estat'' @ [CHR 0xC3, CHR 0xAD] @ ''sticas...</div>''\<rparr>\<close>

definition stat_card :: "string \<Rightarrow> string \<Rightarrow> string" where
  \<open>stat_card heading quantidade =
        ''\<newline>''
        @ ''                <div class="stat-card">\<newline>''
        @ ''                    <h4>''
        @ heading
        @ ''</h4>\<newline>''
        @ ''                    <div class="stat-value">''
        @ quantidade
        @ ''</div>\<newline>''
        @ ''                </div>\<newline>''
        @ ''            ''\<close>

text \<open>
  \<open>renderStats\<close>.  \<open>dump\<close> is the text that the platform's
  \<open>JSON.stringify(stats, null, 2)\<close> returns.  A property of the empty object is
  \<open>undefined\<close>.
\<close>

definition renderStats :: "string \<Rightarrow> stats payload \<Rightarrow> world \<Rightarrow> world" where
  \<open>renderStats dump stats w =
     (let total = (case stats of Empty_object \<Rightarrow> None | Json s \<Rightarrow> total_vinis s);
          cores = (case stats of Empty_object \<Rightarrow> None | Json s \<Rightarrow> por_cor s);
          artistas = (case stats of Empty_object \<Rightarrow> None | Json s \<Rightarrow> por_artista s);
          html0 = ''<div class="stats-grid">'';
          html1 = html0 @
            (case total of
               None \<Rightarrow> []
             | Some n \<Rightarrow>
        ''\<newline>''
        @ ''            <div class="stat-card">\<newline>''
        @ ''                <h4>Total de Vinis</h4>\<newline>''
        @ ''                <div class="stat-value">''
        @ show_int n
        @ ''</div>\<newline>''
        @ ''            </div>\<newline>''
        @ ''        '');
          html2 = html1 @
            (case cores of
               None \<Rightarrow> []
             | Some items \<Rightarrow> concat (map (\<lambda>(cor, quantidade). stat_card (escapeHTML cor) (show_int quantidade)) items));
          html3 = html2 @ ''</div>'';
          html4 = html3 @
            (case artistas of
               None \<Rightarrow> []
             | Some items \<Rightarrow>
                 if items = [] then []
                 else ''<h3 style="margin-top: 2rem; margin-bottom: 1rem;">Por Artista</h3>''
                      @ ''<div class="stats-grid">''
                      @ concat (map (\<lambda>(nome, quantidade). stat_card (escapeHTML nome) (show_int quantidade))
                                  (take 6 items))
                      @ ''</div>'');
          html5 = html4 @
        ''\<newline>''
        @ ''        <div class="stats-raw">\<newline>''
        @ ''            <h3>Dados completos:</h3>\<newline>''
        @ ''            <pre>''
        @ dump
        @ ''</pre>\<newline>''
        @ ''        </div>\<newline>''
        @ ''    ''
      in w\<lparr>stats_container := html5\<rparr>)\<close>

subsection \<open>Modals\<close>


definition show_modal :: "string \<Rightarrow> world \<Rightarrow> world" where
  "show_modal modalId w =
     w\<lparr>active_modals := (if modalId \<in> set (active_modals w) then active_modals w
                          else active_modals w @ [modalId])\<rparr>"

definition showComparacaoModal :: "world \<Rightarrow> world" where
  "showComparacaoModal w =
     (show_modal ''modal-comparar'' w)
       \<lparr>vinil_id_a := [], vinil_id_b := [], comparacao_resultado_display := ''none''\<rparr>"


text \<open>
  \<open>showVinilDetailsModal\<close>: any exception, of the request or of the rendering, puts its
  message into the panel.
\<close>

definition showVinilDetailsModal :: "vinil fetch_outcome \<Rightarrow> int \<Rightarrow> world \<Rightarrow> world" where
  \<open>showVinilDetailsModal outcome i w =
     (let (r, log) = getVinilById outcome (Finite i) (requests w);
          w1 = w\<lparr>requests := log\<rparr>;
          failed = (\<lambda>error.
            show_modal ''modal-detalhes''
              (w1\<lparr>detalhes_content :=
        ''<p style="color: red;">Erro ao carregar detalhes: ''
        @ message error
        @ ''</p>''\<rparr>))
      in case r of
           Inl error \<Rightarrow> failed error
         | Inr Empty_object \<Rightarrow>
             failed (JsError ''Cannot read properties of undefined (reading 'substring')'')
         | Inr (Json vinil) \<Rightarrow>
             (case createVinilDetailsHTML vinil of
                Inl error \<Rightarrow> failed error
              | Inr html \<Rightarrow> show_modal ''modal-detalhes'' (w1\<lparr>detalhes_content := html\<rparr>)))\<close>

section \<open>The application coordinator (\<open>main.js\<close>)\<close>

text \<open>
  A function that awaits a request takes the outcome of that request as an argument, in the
  order in which the requests are issued; \<open>loadStats\<close> also takes the text that
  \<open>JSON.stringify\<close> prints for the statistics, which is read only where they are
  rendered.  Each function runs from its call to its end: two calls that overlap in time are
  not modelled.
\<close>

definition loadVinis :: "vinil list fetch_outcome \<Rightarrow> world \<Rightarrow> world" where
  \<open>loadVinis outcome w =
     (let w1 = showLoading w;
          (r, log) = getVinis outcome (requests w1);
          w2 = w1\<lparr>requests := log\<rparr>;
          failed = (\<lambda>w'.
            (showError (''N'' @ [CHR 0xC3, CHR 0xA3] @ ''o foi poss'' @ [CHR 0xC3, CHR 0xAD] @ ''vel carregar os vinis. Verifique se a API est'' @ [CHR 0xC3, CHR 0xA1] @ '' rodando.'') w')
              \<lparr>loading_display := ''none''\<rparr>)
      in case r of
           Inl error \<Rightarrow> failed w2
         | Inr vinis \<Rightarrow>
             (let w3 = w2\<lparr>currentVinis := vinis\<rparr>;
                  (thrown, w4) = renderVinisGrid (Some vinis) w3
              in case thrown of None \<Rightarrow> w4 | Some error \<Rightarrow> failed w4))\<close>

text \<open>
  \<open>buscarVinis\<close> of \<open>main.js\<close>: the first outcome answers the reload that a term of
  fewer than two characters asks for, the other two answer the sub-queries of the search.
\<close>

definition buscarVinis ::
  "vinil list fetch_outcome \<Rightarrow> vinil list fetch_outcome \<Rightarrow> vinil list fetch_outcome \<Rightarrow> string
     \<Rightarrow> world \<Rightarrow> world" where
  \<open>buscarVinis outcome_all outcome_artista outcome_album termo w =
     (if str_length termo < 2 then (loadVinis outcome_all w)\<lparr>isSearching := False\<rparr>
      else
        (let w1 = (showLoading w)\<lparr>isSearching := True\<rparr>;
             (r, log) = api_buscarVinis outcome_artista outcome_album termo (requests w1);
             w2 = w1\<lparr>requests := log\<rparr>;
             failed = (\<lambda>w'. (showError ''Erro ao realizar a busca.'' w')\<lparr>loading_display := ''none''\<rparr>)
         in case r of
              Inl error \<Rightarrow> failed w2
            | Inr vinis \<Rightarrow>
                (let w3 = w2\<lparr>currentVinis := Json vinis\<rparr>;
                     (thrown, w4) = renderVinisGrid (Some (Json vinis)) w3
                 in case thrown of None \<Rightarrow> w4 | Some error \<Rightarrow> failed w4)))\<close>

definition loadStats :: "string \<Rightarrow> stats fetch_outcome \<Rightarrow> world \<Rightarrow> world" where
  \<open>loadStats dump outcome w =
     (let w1 = showStatsLoading w;
          (r, log) = getStatsCores outcome (requests w1);
          w2 = w1\<lparr>requests := log\<rparr>
      in case r of
           Inl error \<Rightarrow> showError (''N'' @ [CHR 0xC3, CHR 0xA3] @ ''o foi poss'' @ [CHR 0xC3, CHR 0xAD] @ ''vel carregar as estat'' @ [CHR 0xC3, CHR 0xAD] @ ''sticas.'') w2
         | Inr stats \<Rightarrow> renderStats dump stats w2)\<close>


subsection \<open>The form\<close>





section \<open>The search result in the words of the specification\<close>

text \<open>
  ``Deduplicated by identifier, first occurrence wins'': of the Records that share an
  identifier, the one that comes first stays, at its place.
\<close>

fun first_occurrence_wins :: "vinil list \<Rightarrow> vinil list" where
  "first_occurrence_wins [] = []"
| "first_occurrence_wins (v # vs) =
     v # filter (\<lambda>w. vinil_id w \<noteq> vinil_id v) (first_occurrence_wins vs)"

text \<open>The last Record of a list that has the identifier of \<open>v\<close>.\<close>

definition last_occurrence :: "vinil list \<Rightarrow> vinil \<Rightarrow> vinil" where
  "last_occurrence todos v =
     (case find (\<lambda>w. vinil_id w = vinil_id v) (rev todos) of Some w \<Rightarrow> w | None \<Rightarrow> v)"

section \<open>Example data\<close>

abbreviation (input) example_vinil :: "int \<Rightarrow> string \<Rightarrow> string \<Rightarrow> vinil" where
  "example_vinil i a t \<equiv>
     \<lparr>artista = a, album = t, cor_prensagem = ''Preto'', ano = Value 1973, midia = ''LP'',
      selo = Null, capa = Null, vinil_id = i\<rparr>"

abbreviation (input) example_form :: "string \<Rightarrow> string \<Rightarrow> string \<Rightarrow> form_values" where
  "example_form a t y \<equiv>
     \<lparr>form_artista = a, form_album = t, form_cor = ''Preto'', form_ano = y, form_midia = ''LP'',
      form_selo = []\<rparr>"

text \<open>
  A document as it stands after an empty list was shown: the statistics panel holds
  \<open>panel\<close>, the two fields of the comparison hold \<open>a\<close> and \<open>b\<close>, and the form
  holds \<open>f\<close>.
\<close>

abbreviation (input) example_world :: "string \<Rightarrow> string \<Rightarrow> string \<Rightarrow> form_values \<Rightarrow> world" where
  "example_world panel a b f \<equiv>
     \<lparr>requests = [], currentVinis = Json [], isSearching = False,
      loading_display = ''none'', no_results_display = ''flex'', vinis_grid = [],
      total_vinis_text = ''0'', total_raridades_text = ''0'', total_artistas_text = ''0'',
      ano_mais_antigo_text = ''----'', stats_container = panel, notifications = None,
      active_modals = [], detalhes_content = [], vinil_id_a = a, vinil_id_b = b,
      comparacao_resultado_display = ''none'', comparacao_output = None,
      form = f, form_defaults = example_form [] [] [], form_editId = None,
      submit_disabled = False, submit_innerHTML = ''Salvar'', form_capa_value = [],
      preview_src = [], preview_display = ''none'', btn_remove_display = ''none'',
      placeholder_display = ''block''\<rparr>"

section \<open>Properties of the text functions\<close>

lemma startsWith_iff: "startsWith s p \<longleftrightarrow> (\<exists>post. s = p @ post)"
proof
  assume "startsWith s p"
  then have "s = p @ drop (length p) s"
    by (metis append_take_drop_id startsWith_def)
  then show "\<exists>post. s = p @ post" ..
next
  assume "\<exists>post. s = p @ post"
  then show "startsWith s p" by (auto simp: startsWith_def)
qed

lemma str_includes_iff: "str_includes s p \<longleftrightarrow> (\<exists>pre post. s = pre @ p @ post)"
proof (induction s)
  case Nil
  show ?case by simp
next
  case (Cons c s)
  show ?case
  proof
    assume "str_includes (c # s) p"
    then consider "startsWith (c # s) p" | "str_includes s p" by auto
    then show "\<exists>pre post. c # s = pre @ p @ post"
    proof cases
      case 1
      then obtain post where "c # s = p @ post" by (auto simp: startsWith_iff)
      then have "c # s = [] @ p @ post" by simp
      then show ?thesis by blast
    next
      case 2
      with Cons obtain pre post where "s = pre @ p @ post" by auto
      then have "c # s = (c # pre) @ p @ post" by simp
      then show ?thesis by blast
    qed
  next
    assume "\<exists>pre post. c # s = pre @ p @ post"
    then obtain pre post where e: "c # s = pre @ p @ post" by auto
    show "str_includes (c # s) p"
    proof (cases pre)
      case Nil
      with e have "startsWith (c # s) p" by (auto simp: startsWith_iff)
      then show ?thesis by simp
    next
      case (Cons d pre')
      with e have "s = pre' @ p @ post" by simp
      with Cons.IH have "str_includes s p" by blast
      then show ?thesis by simp
    qed
  qed
qed

lemma str_includes_here: "str_includes (a @ b @ c @ r) (a @ b @ c)"
proof -
  have "a @ b @ c @ r = [] @ (a @ b @ c) @ r" by simp
  then show ?thesis unfolding str_includes_iff by blast
qed

lemma str_includes_later: "str_includes s p \<Longrightarrow> str_includes (x @ s) p"
proof -
  assume "str_includes s p"
  then obtain pre post where "s = pre @ p @ post" unfolding str_includes_iff by blast
  then have "x @ s = (x @ pre) @ p @ post" by simp
  then show ?thesis unfolding str_includes_iff by blast
qed

lemma str_includes_inner: "str_includes s (a @ q @ b) \<Longrightarrow> str_includes s q"
proof -
  assume "str_includes s (a @ q @ b)"
  then obtain pre post where "s = pre @ (a @ q @ b) @ post" unfolding str_includes_iff by blast
  then have "s = (pre @ a) @ q @ (b @ post)" by simp
  then show ?thesis unfolding str_includes_iff by blast
qed

text \<open>
  Rules that evaluate the recursive text functions on a given text: each applies only where
  its condition is decided.
\<close>

lemma show_nat_digit: "n < 10 \<Longrightarrow> show_nat n = [digit_char n]"
  by (simp add: show_nat.simps)

lemma show_nat_more: "\<not> n < 10 \<Longrightarrow> show_nat n = show_nat (n div 10) @ [digit_char (n mod 10)]"
  by (subst show_nat.simps) simp



lemma strip_done: "leading ps s = 0 \<Longrightarrow> strip ps s = s"
  by (simp add: strip.simps)

lemma strip_more: "leading ps s \<noteq> 0 \<Longrightarrow> strip ps s = strip ps (drop (leading ps s) s)"
  by (subst strip.simps) simp

lemma digit_chars:
  "digit_char 0 = CHR ''0''" "digit_char 1 = CHR ''1''" "digit_char (Suc 0) = CHR ''1''"
  "digit_char 2 = CHR ''2''" "digit_char 3 = CHR ''3''" "digit_char 4 = CHR ''4''"
  "digit_char 5 = CHR ''5''" "digit_char 6 = CHR ''6''" "digit_char 7 = CHR ''7''"
  "digit_char 8 = CHR ''8''" "digit_char 9 = CHR ''9''"
  by (simp_all add: digit_char_def char_of_def bit_0)


lemmas trim_simps = trim_def trimEnd_def trimStart_def strip_done strip_more leading_def
  white_space_def startsWith_def


















lemma trim_blank: "trim ''  '' = []"
  by (simp add: trim_simps)





section \<open>Properties of the gateway\<close>

subsection \<open>The \<open>Map\<close> of the combined search\<close>

lemma key_in_image: "(k, b) \<in> set m \<Longrightarrow> k \<in> fst ` set m"
  by (metis fst_conv image_eqI)

lemma Map_set_keys_old: "k \<in> fst ` set m \<Longrightarrow> map fst (Map_set k v m) = map fst m"
proof (induction m)
  case Nil
  then show ?case by simp
next
  case (Cons e m)
  show ?case
  proof (cases "fst e = k")
    case True
    then show ?thesis by (cases e) simp
  next
    case False
    with Cons.prems have "k \<in> fst ` set m" by auto
    with Cons.IH False show ?thesis by (cases e) simp
  qed
qed

lemma Map_set_keys_new: "k \<notin> fst ` set m \<Longrightarrow> map fst (Map_set k v m) = map fst m @ [k]"
  by (induction m) auto

lemma Map_set_keys:
  "map fst (Map_set k v m) = (if k \<in> set (map fst m) then map fst m else map fst m @ [k])"
  by (simp add: Map_set_keys_old Map_set_keys_new)

lemma Map_set_map_of: "map_of (Map_set k v m) = (map_of m)(k \<mapsto> v)"
  by (induction m) (auto simp: fun_eq_iff)

lemma new_Map_snoc: "new_Map (es @ [(k, v)]) = Map_set k v (new_Map es)"
  by (simp add: new_Map_def)

lemma remdups_snoc: "remdups (ys @ [a]) = filter (\<lambda>y. y \<noteq> a) (remdups ys) @ [a]"
  by (induction ys) auto

lemma new_Map_keys: "map fst (new_Map es) = rev (remdups (rev (map fst es)))"
proof (induction es rule: rev_induct)
  case Nil
  show ?case by (simp add: new_Map_def)
next
  case (snoc e es)
  obtain k v where e: "e = (k, v)" by (cases e)
  show ?case
    using snoc by (auto simp: e new_Map_snoc Map_set_keys)
qed

lemma new_Map_distinct: "distinct (map fst (new_Map es))"
  by (simp add: new_Map_keys)

lemma new_Map_map_of: "map_of (new_Map es) = map_of (rev es)"
proof (induction es rule: rev_induct)
  case Nil
  show ?case by (simp add: new_Map_def)
next
  case (snoc e es)
  obtain k v where e: "e = (k, v)" by (cases e)
  show ?case
    using snoc by (simp add: e new_Map_snoc Map_set_map_of)
qed

lemma values_by_lookup:
  "distinct (map fst m) \<Longrightarrow> map snd m = map (\<lambda>k. the (map_of m k)) (map fst m)"
proof (induction m)
  case Nil
  show ?case by simp
next
  case (Cons e m)
  have "map (\<lambda>k. the (map_of (e # m) k)) (map fst m) = map (\<lambda>k. the (map_of m k)) (map fst m)"
  proof (rule map_cong[OF refl])
    fix k assume "k \<in> set (map fst m)"
    with Cons.prems have "k \<noteq> fst e" by (auto dest: key_in_image)
    then show "the (map_of (e # m) k) = the (map_of m k)" by (cases e) simp
  qed
  with Cons show ?case by (cases e) simp
qed

lemma first_occurrence_ids:
  "map vinil_id (first_occurrence_wins vs) = rev (remdups (rev (map vinil_id vs)))"
proof (induction vs)
  case Nil
  show ?case by simp
next
  case (Cons v vs)
  have "map vinil_id (filter (\<lambda>w. vinil_id w \<noteq> vinil_id v) (first_occurrence_wins vs))
        = filter (\<lambda>i. i \<noteq> vinil_id v) (map vinil_id (first_occurrence_wins vs))"
    by (simp add: filter_map comp_def)
  then show ?case
    using Cons by (simp add: remdups_snoc rev_filter)
qed

lemma map_of_by_id: "map_of (map (\<lambda>v. (f v, v)) xs) i = find (\<lambda>w. f w = i) xs"
  by (induction xs) auto

lemma first_occurrence_subset: "set (first_occurrence_wins vs) \<subseteq> set vs"
  by (induction vs) auto

lemma find_id_Some:
  "v \<in> set todos \<Longrightarrow> \<exists>w. find (\<lambda>w. vinil_id w = vinil_id v) (rev todos) = Some w"
  by (cases "find (\<lambda>w. vinil_id w = vinil_id v) (rev todos)") (auto simp: find_None_iff)

lemma find_SomeD: "find P xs = Some w \<Longrightarrow> P w \<and> w \<in> set xs"
  by (induction xs) (auto split: if_splits)

lemma find_in_first: "find P xs = Some w \<Longrightarrow> find P (xs @ ys) = Some w"
  by (induction xs) (auto split: if_splits)

lemma vinisUnicos_eq:
  "vinisUnicos todos = map (last_occurrence todos) (first_occurrence_wins todos)"
proof -
  let ?es = "map (\<lambda>v. (vinil_id v, v)) todos"
  have keys: "map fst (new_Map ?es) = map vinil_id (first_occurrence_wins todos)"
    by (simp add: new_Map_keys first_occurrence_ids comp_def)
  have look: "map_of (new_Map ?es) i = find (\<lambda>w. vinil_id w = i) (rev todos)" for i
    by (simp add: new_Map_map_of rev_map map_of_by_id)
  have "vinisUnicos todos = map (\<lambda>k. the (map_of (new_Map ?es) k)) (map fst (new_Map ?es))"
    unfolding vinisUnicos_def Map_values_def
    by (rule values_by_lookup) (rule new_Map_distinct)
  also have "\<dots> = map (\<lambda>v. the (find (\<lambda>w. vinil_id w = vinil_id v) (rev todos))) (first_occurrence_wins todos)"
    by (simp add: keys look comp_def)
  also have "\<dots> = map (last_occurrence todos) (first_occurrence_wins todos)"
  proof (rule map_cong[OF refl])
    fix v assume "v \<in> set (first_occurrence_wins todos)"
    then have "v \<in> set todos" using first_occurrence_subset by blast
    from find_id_Some[OF this] obtain w where "find (\<lambda>w. vinil_id w = vinil_id v) (rev todos) = Some w" ..
    then show "the (find (\<lambda>w. vinil_id w = vinil_id v) (rev todos)) = last_occurrence todos v"
      by (simp add: last_occurrence_def)
  qed
  finally show ?thesis .
qed

lemma last_occurrence_same:
  assumes "\<forall>x\<in>set todos. \<forall>y\<in>set todos. vinil_id x = vinil_id y \<longrightarrow> x = y" and "v \<in> set todos"
  shows "last_occurrence todos v = v"
proof -
  from find_id_Some[OF assms(2)] obtain w
    where w: "find (\<lambda>w. vinil_id w = vinil_id v) (rev todos) = Some w" ..
  from find_SomeD[OF w] have "vinil_id w = vinil_id v" and "w \<in> set todos"
    by simp_all
  with assms have "w = v" by blast
  with w show ?thesis by (simp add: last_occurrence_def)
qed

lemma last_occurrence_id: "vinil_id (last_occurrence todos v) = vinil_id v"
proof (cases "find (\<lambda>w. vinil_id w = vinil_id v) (rev todos)")
  case None
  then show ?thesis by (simp add: last_occurrence_def)
next
  case (Some w)
  from find_SomeD[OF Some] Some show ?thesis by (simp add: last_occurrence_def)
qed

lemma last_occurrence_member: "v \<in> set todos \<Longrightarrow> last_occurrence todos v \<in> set todos"
proof -
  assume "v \<in> set todos"
  from find_id_Some[OF this] obtain w
    where w: "find (\<lambda>w. vinil_id w = vinil_id v) (rev todos) = Some w" ..
  from find_SomeD[OF w] w show ?thesis by (simp add: last_occurrence_def)
qed

lemma vinisUnicos_ids: "map vinil_id (vinisUnicos todos) = rev (remdups (rev (map vinil_id todos)))"
proof -
  have "map vinil_id (vinisUnicos todos) = map vinil_id (first_occurrence_wins todos)"
    by (simp add: vinisUnicos_eq last_occurrence_id)
  then show ?thesis by (simp add: first_occurrence_ids)
qed

lemma vinisUnicos_distinct: "distinct (map vinil_id (vinisUnicos todos))"
  by (simp add: vinisUnicos_ids)

lemma vinisUnicos_id_set: "vinil_id ` set (vinisUnicos todos) = vinil_id ` set todos"
proof -
  have "set (map vinil_id (vinisUnicos todos)) = set (map vinil_id todos)"
    by (simp add: vinisUnicos_ids)
  then show ?thesis by simp
qed

lemma vinisUnicos_subset: "set (vinisUnicos todos) \<subseteq> set todos"
proof
  fix x assume "x \<in> set (vinisUnicos todos)"
  then obtain v where v: "v \<in> set (first_occurrence_wins todos)" and x: "x = last_occurrence todos v"
    by (auto simp: vinisUnicos_eq)
  from v have "v \<in> set todos" using first_occurrence_subset by blast
  with x show "x \<in> set todos" by (simp add: last_occurrence_member)
qed

lemma vinisUnicos_only:
  assumes "A \<in> set todos" and "\<forall>x\<in>set todos. vinil_id x = vinil_id A \<longrightarrow> x = A"
  shows "A \<in> set (vinisUnicos todos)"
proof -
  from assms(1) have "vinil_id A \<in> vinil_id ` set (vinisUnicos todos)"
    by (simp add: vinisUnicos_id_set)
  then obtain x where x: "x \<in> set (vinisUnicos todos)" and "vinil_id x = vinil_id A" by auto
  moreover from x have "x \<in> set todos" using vinisUnicos_subset by blast
  ultimately have "x = A" using assms(2) by blast
  with x show ?thesis by simp
qed

lemma vinisUnicos_last_list:
  assumes "B \<in> set rb" and "\<forall>x\<in>set rb. vinil_id x = vinil_id B \<longrightarrow> x = B"
  shows "B \<in> set (vinisUnicos (ra @ rb))"
proof -
  have all: "B \<in> set (ra @ rb)" using assms(1) by simp
  have "find (\<lambda>w. vinil_id w = vinil_id B) (rev rb) \<noteq> None"
    using assms(1) by (auto simp: find_None_iff)
  then obtain w' where w': "find (\<lambda>w. vinil_id w = vinil_id B) (rev rb) = Some w'" by auto
  from find_SomeD[OF w'] assms(2) have "w' = B" by simp
  with w' have fB: "find (\<lambda>w. vinil_id w = vinil_id B) (rev (ra @ rb)) = Some B"
    by (simp add: find_in_first)
  from all have "vinil_id B \<in> vinil_id ` set (vinisUnicos (ra @ rb))"
    by (simp only: vinisUnicos_id_set) simp
  then obtain x where x: "x \<in> set (vinisUnicos (ra @ rb))" and idx: "vinil_id x = vinil_id B" by auto
  from x obtain v where v: "v \<in> set (first_occurrence_wins (ra @ rb))" and xv: "x = last_occurrence (ra @ rb) v"
    by (auto simp: vinisUnicos_eq)
  from xv idx have "vinil_id v = vinil_id B" by (simp add: last_occurrence_id)
  with fB have "last_occurrence (ra @ rb) v = B" by (simp add: last_occurrence_def)
  with xv have "x = B" by simp
  with x show ?thesis by simp
qed

lemma vinisUnicos_distinct_id: "distinct (map vinil_id rs) \<Longrightarrow> vinisUnicos rs = rs"
proof -
  assume d: "distinct (map vinil_id rs)"
  have f: "first_occurrence_wins xs = xs" if "distinct (map vinil_id xs)" for xs
    using that
  proof (induction xs)
    case Nil
    show ?case by simp
  next
    case (Cons v vs)
    then have "filter (\<lambda>w. vinil_id w \<noteq> vinil_id v) vs = vs"
      by (intro filter_True) (auto simp: image_iff)
    with Cons show ?case by simp
  qed
  have same: "\<forall>x\<in>set rs. \<forall>y\<in>set rs. vinil_id x = vinil_id y \<longrightarrow> x = y"
    using d by (auto simp: distinct_map inj_on_def)
  have "map (last_occurrence rs) rs = rs"
    by (rule map_idI) (rule last_occurrence_same[OF same])
  with f[OF d] show ?thesis by (simp add: vinisUnicos_eq)
qed

subsection \<open>Requests and their results\<close>

lemma fetch_ok:
  "status \<noteq> 204 \<Longrightarrow> fst (fetchAPI (Response_ok status (Inr v)) endpoint opts log) = Inr (Json v)"
  by (simp add: fetchAPI_def Let_def)

lemma fetch_result_log: "fst (fetchAPI outcome endpoint opts log) = fst (fetchAPI outcome endpoint' opts' log')"
  by (simp add: fetchAPI_def Let_def)

lemma api_buscarVinis_ok:
  "sa \<noteq> 204 \<Longrightarrow> sb \<noteq> 204 \<Longrightarrow>
   fst (api_buscarVinis (Response_ok sa (Inr ra)) (Response_ok sb (Inr rb)) termo log)
     = Inr (vinisUnicos (ra @ rb))"
  by (simp add: api_buscarVinis_def buscarPorArtista_def buscarPorAlbum_def fetchAPI_def Let_def
      spread_def split: prod.splits)

lemma api_buscarVinis_artista_failed:
  assumes "fst (buscarPorArtista outcome_artista termo log') = Inl e" and "sb \<noteq> 204"
  shows "fst (api_buscarVinis outcome_artista (Response_ok sb (Inr rb)) termo log) = Inr (vinisUnicos rb)"
  using assms
  by (cases outcome_artista)
    (auto simp: api_buscarVinis_def buscarPorArtista_def buscarPorAlbum_def fetchAPI_def Let_def
      spread_def split: sum.splits if_splits)

lemma api_buscarVinis_album_failed:
  assumes "fst (buscarPorAlbum outcome_album termo log') = Inl e" and "sa \<noteq> 204"
  shows "fst (api_buscarVinis (Response_ok sa (Inr ra)) outcome_album termo log) = Inr (vinisUnicos ra)"
  using assms
  by (cases outcome_album)
    (auto simp: api_buscarVinis_def buscarPorArtista_def buscarPorAlbum_def fetchAPI_def Let_def
      spread_def split: sum.splits if_splits)

lemma api_buscarVinis_never_rejects:
  "\<exists>r. fst (api_buscarVinis outcome_artista outcome_album termo log) = Inr r"
  by (simp add: api_buscarVinis_def Let_def split: prod.splits sum.splits)



subsection \<open>The combined search\<close>

text \<open>
  C2, as amended.  When both sub-queries of the combined search succeed, the result holds each
  identifier of the two result lists once, in the order of the first occurrences in the
  concatenated sequence (artist results before album results); the Record kept for an
  identifier is the one of its last occurrence.  When the Records that share an identifier
  are equal, that is the deduplication in which the first occurrence wins.
\<close>

theorem buscar_union_last_value:
  "sa \<noteq> 204 \<and> sb \<noteq> 204 \<longrightarrow>
     fst (api_buscarVinis (Response_ok sa (Inr ra)) (Response_ok sb (Inr rb)) termo log)
       = Inr (map (last_occurrence (ra @ rb)) (first_occurrence_wins (ra @ rb)))
     \<and> ((\<forall>x\<in>set (ra @ rb). \<forall>y\<in>set (ra @ rb). vinil_id x = vinil_id y \<longrightarrow> x = y) \<longrightarrow>
          fst (api_buscarVinis (Response_ok sa (Inr ra)) (Response_ok sb (Inr rb)) termo log)
            = Inr (first_occurrence_wins (ra @ rb)))"
proof (intro impI conjI)
  assume st: "sa \<noteq> 204 \<and> sb \<noteq> 204"
  then show eq: "fst (api_buscarVinis (Response_ok sa (Inr ra)) (Response_ok sb (Inr rb)) termo log)
       = Inr (map (last_occurrence (ra @ rb)) (first_occurrence_wins (ra @ rb)))"
    by (simp add: api_buscarVinis_ok vinisUnicos_eq)
  assume same: "\<forall>x\<in>set (ra @ rb). \<forall>y\<in>set (ra @ rb). vinil_id x = vinil_id y \<longrightarrow> x = y"
  have "map (last_occurrence (ra @ rb)) (first_occurrence_wins (ra @ rb)) = first_occurrence_wins (ra @ rb)"
  proof (rule map_idI)
    fix v assume "v \<in> set (first_occurrence_wins (ra @ rb))"
    then have "v \<in> set (ra @ rb)" using first_occurrence_subset by blast
    with same show "last_occurrence (ra @ rb) v = v" by (rule last_occurrence_same)
  qed
  with eq show "fst (api_buscarVinis (Response_ok sa (Inr ra)) (Response_ok sb (Inr rb)) termo log)
            = Inr (first_occurrence_wins (ra @ rb))" by simp
qed

theorem buscar_union_last_value_witness:
  "fst (api_buscarVinis
          (Response_ok 200 (Inr [example_vinil 1 ''Pink Floyd'' ''Animals'', example_vinil 2 ''Floyd Cramer'' ''Last Date'']))
          (Response_ok 200 (Inr [example_vinil 2 ''Floyd Cramer'' ''Last Date'', example_vinil 3 ''Blind Melon'' ''Floyd'']))
          ''floyd'' [])
     = Inr [example_vinil 1 ''Pink Floyd'' ''Animals'', example_vinil 2 ''Floyd Cramer'' ''Last Date'',
            example_vinil 3 ''Blind Melon'' ''Floyd'']"
  using buscar_union_last_value
    [of 200 200 "[example_vinil 1 ''Pink Floyd'' ''Animals'', example_vinil 2 ''Floyd Cramer'' ''Last Date'']"
        "[example_vinil 2 ''Floyd Cramer'' ''Last Date'', example_vinil 3 ''Blind Melon'' ''Floyd'']" "''floyd''" "[]"]
  by (simp add: last_occurrence_def)

text \<open>
  C2, as stated, fails: the two sub-queries return a Record with identifier 1 each, with
  different titles; the combined result holds the second one, where ``first occurrence
  wins'' keeps the first.
\<close>

theorem buscar_first_occurrence_counterexample:
  "fst (api_buscarVinis
          (Response_ok 200 (Inr [example_vinil 1 ''Pink Floyd'' ''Animals'']))
          (Response_ok 200 (Inr [example_vinil 1 ''Pink Floyd'' ''Animals (Remaster)'']))
          ''animals'' [])
     = Inr [example_vinil 1 ''Pink Floyd'' ''Animals (Remaster)'']
   \<and> first_occurrence_wins
        ([example_vinil 1 ''Pink Floyd'' ''Animals''] @ [example_vinil 1 ''Pink Floyd'' ''Animals (Remaster)''])
     = [example_vinil 1 ''Pink Floyd'' ''Animals'']"
  by (simp add: api_buscarVinis_def buscarPorArtista_def buscarPorAlbum_def fetchAPI_def spread_def
      vinisUnicos_def new_Map_def Map_values_def)

text \<open>
  C3, as amended.  When the artist sub-query returns Record \<open>A\<close> and the album sub-query returns
  Record \<open>B\<close>, the combined result holds a Record with the identifier of \<open>A\<close> and
  one with the identifier of \<open>B\<close>, and no two of its elements share an identifier,
  whatever the two result lists have in common.  The Record found under the identifier of
  \<open>A\<close> is \<open>A\<close> itself when no Record returned under that identifier differs from
  it, and likewise for \<open>B\<close> among the album results.
\<close>

theorem buscar_contains_both:
  assumes "sa \<noteq> 204" and "sb \<noteq> 204" and "A \<in> set ra" and "B \<in> set rb"
  shows "\<exists>r. fst (api_buscarVinis (Response_ok sa (Inr ra)) (Response_ok sb (Inr rb)) termo log) = Inr r
           \<and> vinil_id A \<in> vinil_id ` set r \<and> vinil_id B \<in> vinil_id ` set r
           \<and> distinct (map vinil_id r)
           \<and> ((\<forall>x\<in>set (ra @ rb). vinil_id x = vinil_id A \<longrightarrow> x = A) \<longrightarrow> A \<in> set r)
           \<and> ((\<forall>x\<in>set rb. vinil_id x = vinil_id B \<longrightarrow> x = B) \<longrightarrow> B \<in> set r)"
proof (intro exI conjI impI)
  show "fst (api_buscarVinis (Response_ok sa (Inr ra)) (Response_ok sb (Inr rb)) termo log)
          = Inr (vinisUnicos (ra @ rb))"
    using assms(1,2) by (rule api_buscarVinis_ok)
  show "vinil_id A \<in> vinil_id ` set (vinisUnicos (ra @ rb))"
    using assms(3) by (simp only: vinisUnicos_id_set) simp
  show "vinil_id B \<in> vinil_id ` set (vinisUnicos (ra @ rb))"
    using assms(4) by (simp only: vinisUnicos_id_set) simp
  show "distinct (map vinil_id (vinisUnicos (ra @ rb)))"
    by (rule vinisUnicos_distinct)
  show "A \<in> set (vinisUnicos (ra @ rb))"
    if "\<forall>x\<in>set (ra @ rb). vinil_id x = vinil_id A \<longrightarrow> x = A"
    using assms(3) that by (intro vinisUnicos_only) simp_all
  show "B \<in> set (vinisUnicos (ra @ rb))"
    if "\<forall>x\<in>set rb. vinil_id x = vinil_id B \<longrightarrow> x = B"
    using assms(4) that by (rule vinisUnicos_last_list)
qed

theorem buscar_contains_both_witness:
  "\<exists>r. fst (api_buscarVinis
          (Response_ok 200 (Inr [example_vinil 1 ''Pink Floyd'' ''Animals'', example_vinil 2 ''Floyd Cramer'' ''Last Date'']))
          (Response_ok 200 (Inr [example_vinil 2 ''Floyd Cramer'' ''Last Date'', example_vinil 3 ''Blind Melon'' ''Floyd'']))
          ''floyd'' []) = Inr r
     \<and> example_vinil 1 ''Pink Floyd'' ''Animals'' \<in> set r
     \<and> example_vinil 3 ''Blind Melon'' ''Floyd'' \<in> set r
     \<and> distinct (map vinil_id r)"
  using buscar_contains_both
    [of 200 200 "example_vinil 1 ''Pink Floyd'' ''Animals''"
        "[example_vinil 1 ''Pink Floyd'' ''Animals'', example_vinil 2 ''Floyd Cramer'' ''Last Date'']"
        "example_vinil 3 ''Blind Melon'' ''Floyd''"
        "[example_vinil 2 ''Floyd Cramer'' ''Last Date'', example_vinil 3 ''Blind Melon'' ''Floyd'']"
        "''floyd''" "[]"]
  by auto

text \<open>
  C3, as stated, fails: the artist sub-query returns Record 1 under the title it had, and the
  album sub-query, which runs beside it, returns Record 1 under a new title together with
  Record 3.  The combined result holds Record 1 as the album sub-query returned it; the Record
  that the artist sub-query returned is not in it.
\<close>

theorem buscar_contains_both_counterexample:
  "fst (api_buscarVinis
          (Response_ok 200 (Inr [example_vinil 1 ''Pink Floyd'' ''Animals'']))
          (Response_ok 200 (Inr [example_vinil 1 ''Pink Floyd'' ''Floyd at Pompeii'',
                                 example_vinil 3 ''Blind Melon'' ''Floyd'']))
          ''floyd'' [])
     = Inr [example_vinil 1 ''Pink Floyd'' ''Floyd at Pompeii'', example_vinil 3 ''Blind Melon'' ''Floyd'']
   \<and> example_vinil 1 ''Pink Floyd'' ''Animals''
       \<notin> set [example_vinil 1 ''Pink Floyd'' ''Floyd at Pompeii'', example_vinil 3 ''Blind Melon'' ''Floyd'']"
  by (simp add: api_buscarVinis_def buscarPorArtista_def buscarPorAlbum_def fetchAPI_def spread_def
      vinisUnicos_def new_Map_def Map_values_def)

text \<open>
  C6.  When one of the two sub-queries fails (its request rejects), the combined search
  returns what it returns when that sub-query answers with the empty list: the result of the
  other sub-query, deduplicated by identifier, which is that result itself when its
  identifiers are distinct.  The combined search never rejects.
\<close>

theorem buscar_degrades:
  "(fst (buscarPorArtista outcome_artista termo log) = Inl e \<and> sb \<noteq> 204 \<longrightarrow>
      fst (api_buscarVinis outcome_artista (Response_ok sb (Inr rb)) termo log)
        = fst (api_buscarVinis (Response_ok 200 (Inr [])) (Response_ok sb (Inr rb)) termo log)
      \<and> fst (api_buscarVinis outcome_artista (Response_ok sb (Inr rb)) termo log) = Inr (vinisUnicos rb)
      \<and> (distinct (map vinil_id rb) \<longrightarrow>
           fst (api_buscarVinis outcome_artista (Response_ok sb (Inr rb)) termo log) = Inr rb))
   \<and> (fst (buscarPorAlbum outcome_album termo log) = Inl e \<and> sa \<noteq> 204 \<longrightarrow>
      fst (api_buscarVinis (Response_ok sa (Inr ra)) outcome_album termo log)
        = fst (api_buscarVinis (Response_ok sa (Inr ra)) (Response_ok 200 (Inr [])) termo log)
      \<and> fst (api_buscarVinis (Response_ok sa (Inr ra)) outcome_album termo log) = Inr (vinisUnicos ra)
      \<and> (distinct (map vinil_id ra) \<longrightarrow>
           fst (api_buscarVinis (Response_ok sa (Inr ra)) outcome_album termo log) = Inr ra))
   \<and> (\<exists>r. fst (api_buscarVinis outcome_artista outcome_album termo log) = Inr r)"
proof (intro conjI impI)
  assume a: "fst (buscarPorArtista outcome_artista termo log) = Inl e \<and> sb \<noteq> 204"
  then have a1: "fst (buscarPorArtista outcome_artista termo log) = Inl e" and a2: "sb \<noteq> 204"
    by simp_all
  show r: "fst (api_buscarVinis outcome_artista (Response_ok sb (Inr rb)) termo log) = Inr (vinisUnicos rb)"
    by (rule api_buscarVinis_artista_failed[OF a1 a2])
  from a have "fst (api_buscarVinis (Response_ok 200 (Inr [])) (Response_ok sb (Inr rb)) termo log)
      = Inr (vinisUnicos ([] @ rb))"
    by (intro api_buscarVinis_ok) simp_all
  with r show "fst (api_buscarVinis outcome_artista (Response_ok sb (Inr rb)) termo log)
        = fst (api_buscarVinis (Response_ok 200 (Inr [])) (Response_ok sb (Inr rb)) termo log)"
    by simp
  show "fst (api_buscarVinis outcome_artista (Response_ok sb (Inr rb)) termo log) = Inr rb"
    if "distinct (map vinil_id rb)"
    using r that by (simp add: vinisUnicos_distinct_id)
next
  assume a: "fst (buscarPorAlbum outcome_album termo log) = Inl e \<and> sa \<noteq> 204"
  then have a1: "fst (buscarPorAlbum outcome_album termo log) = Inl e" and a2: "sa \<noteq> 204"
    by simp_all
  show r: "fst (api_buscarVinis (Response_ok sa (Inr ra)) outcome_album termo log) = Inr (vinisUnicos ra)"
    by (rule api_buscarVinis_album_failed[OF a1 a2])
  from a have "fst (api_buscarVinis (Response_ok sa (Inr ra)) (Response_ok 200 (Inr [])) termo log)
      = Inr (vinisUnicos (ra @ []))"
    by (intro api_buscarVinis_ok) simp_all
  with r show "fst (api_buscarVinis (Response_ok sa (Inr ra)) outcome_album termo log)
        = fst (api_buscarVinis (Response_ok sa (Inr ra)) (Response_ok 200 (Inr [])) termo log)"
    by simp
  show "fst (api_buscarVinis (Response_ok sa (Inr ra)) outcome_album termo log) = Inr ra"
    if "distinct (map vinil_id ra)"
    using r that by (simp add: vinisUnicos_distinct_id)
next
  show "\<exists>r. fst (api_buscarVinis outcome_artista outcome_album termo log) = Inr r"
    by (rule api_buscarVinis_never_rejects)
qed

theorem buscar_degrades_witness:
  "fst (api_buscarVinis (Transport_failure (JsError ''Failed to fetch''))
          (Response_ok 200 (Inr [example_vinil 3 ''Blind Melon'' ''Floyd''])) ''floyd'' [])
     = Inr [example_vinil 3 ''Blind Melon'' ''Floyd'']
   \<and> fst (api_buscarVinis (Response_ok 200 (Inr [example_vinil 1 ''Pink Floyd'' ''Animals'']))
          (Response_not_ok 500 (Inr (JObj [(''message'', JStr ''Internal Server Error'')]))) ''floyd'' [])
     = Inr [example_vinil 1 ''Pink Floyd'' ''Animals'']"
proof -
  have a: "fst (buscarPorArtista (Transport_failure (JsError ''Failed to fetch'')) ''floyd'' [])
             = Inl (JsError ''Failed to fetch'')"
    by (simp add: buscarPorArtista_def fetchAPI_def)
  have b: "fst (buscarPorAlbum (Response_not_ok 500 (Inr (JObj [(''message'', JStr ''Internal Server Error'')]))) ''floyd'' [])
             = Inl (JsError ''Internal Server Error'')"
    by (simp add: buscarPorAlbum_def fetchAPI_def http_error_message_def)
  show ?thesis
    using a b
      buscar_degrades [of "Transport_failure (JsError ''Failed to fetch'')" "''floyd''" "[]"
        "JsError ''Failed to fetch''" 200 "[example_vinil 3 ''Blind Melon'' ''Floyd'']"
        "Response_not_ok 500 (Inr (JObj [(''message'', JStr ''Internal Server Error'')]))" 200
        "[example_vinil 1 ''Pink Floyd'' ''Animals'']"]
      buscar_degrades [of "Transport_failure (JsError ''Failed to fetch'')" "''floyd''" "[]"
        "JsError ''Internal Server Error''" 200 "[example_vinil 3 ''Blind Melon'' ''Floyd'']"
        "Response_not_ok 500 (Inr (JObj [(''message'', JStr ''Internal Server Error'')]))" 200
        "[example_vinil 1 ''Pink Floyd'' ''Animals'']"]
    by (simp add: api_buscarVinis_def buscarPorArtista_def buscarPorAlbum_def fetchAPI_def
        spread_def vinisUnicos_def new_Map_def Map_values_def http_error_message_def)
qed

subsection \<open>Uniform failure\<close>

text \<open>
  C7, as amended.  Every operation of the gateway that sends one request through
  \<open>fetchAPI\<close> (list, get by identifier, search by artist, search by album, statistics,
  create, update, delete) resolves a response with status 204 to the empty object, rejects
  with the exception of the transport when the transport fails, and rejects when the status
  is not a success.  The exception of a status that is not a success carries the text
  \<open>Erro HTTP:\<close> with the status when the body is not JSON or is a JSON object whose
  \<open>message\<close> is missing or falsy (\<open>null\<close>, \<open>false\<close>, zero, the empty text), and
  the \<open>message\<close> of the body when that is a text that is not empty.
  Whatever the body, the operations reject, and all with the same exception for the same
  response.  The comparison, which sends two such requests, rejects with the exception of the
  first of them that fails.  The combined search is left out: it handles the failures of its
  sub-queries itself (C6).
\<close>

theorem gateway_uniform_failure:
  "fst (fetchAPI (Response_ok 204 parsed) endpoint opts log) = Inr Empty_object
   \<and> fst (fetchAPI (Transport_failure e) endpoint opts log) = Inl e
   \<and> fst (getVinis (Response_ok 204 p1) log) = Inr Empty_object
   \<and> fst (getVinilById (Response_ok 204 p2) i log) = Inr Empty_object
   \<and> fst (buscarPorArtista (Response_ok 204 p3) termo log) = Inr Empty_object
   \<and> fst (buscarPorAlbum (Response_ok 204 p4) termo log) = Inr Empty_object
   \<and> fst (getStatsCores (Response_ok 204 p5) log) = Inr Empty_object
   \<and> fst (adicionarVinil (Response_ok 204 p6) data log) = Inr Empty_object
   \<and> fst (atualizarVinil (Response_ok 204 p7) id_text data log) = Inr Empty_object
   \<and> fst (deletarVinil (Response_ok 204 p8) i log) = Inr Empty_object
   \<and> fst (getVinis (Transport_failure e) log) = Inl e
   \<and> fst (getVinilById (Transport_failure e) i log) = Inl e
   \<and> fst (buscarPorArtista (Transport_failure e) termo log) = Inl e
   \<and> fst (buscarPorAlbum (Transport_failure e) termo log) = Inl e
   \<and> fst (getStatsCores (Transport_failure e) log) = Inl e
   \<and> fst (adicionarVinil (Transport_failure e) data log) = Inl e
   \<and> fst (atualizarVinil (Transport_failure e) id_text data log) = Inl e
   \<and> fst (deletarVinil (Transport_failure e) i log) = Inl e
   \<and> fst (getVinis (Response_not_ok status (Inl e')) log)
        = Inl (JsError (''Erro HTTP: '' @ show_nat status))
   \<and> fst (getVinilById (Response_not_ok status (Inl e')) i log)
        = Inl (JsError (''Erro HTTP: '' @ show_nat status))
   \<and> fst (buscarPorArtista (Response_not_ok status (Inl e')) termo log)
        = Inl (JsError (''Erro HTTP: '' @ show_nat status))
   \<and> fst (buscarPorAlbum (Response_not_ok status (Inl e')) termo log)
        = Inl (JsError (''Erro HTTP: '' @ show_nat status))
   \<and> fst (getStatsCores (Response_not_ok status (Inl e')) log)
        = Inl (JsError (''Erro HTTP: '' @ show_nat status))
   \<and> fst (adicionarVinil (Response_not_ok status (Inl e')) data log)
        = Inl (JsError (''Erro HTTP: '' @ show_nat status))
   \<and> fst (atualizarVinil (Response_not_ok status (Inl e')) id_text data log)
        = Inl (JsError (''Erro HTTP: '' @ show_nat status))
   \<and> fst (deletarVinil (Response_not_ok status (Inl e')) i log)
        = Inl (JsError (''Erro HTTP: '' @ show_nat status))
   \<and> (map_of kvs ''message'' = None \<longrightarrow>
        fst (getVinis (Response_not_ok status (Inr (JObj kvs))) log)
          = Inl (JsError (''Erro HTTP: '' @ show_nat status)))
   \<and> (map_of kvs ''message'' = None \<longrightarrow>
        fst (getVinilById (Response_not_ok status (Inr (JObj kvs))) i log)
          = Inl (JsError (''Erro HTTP: '' @ show_nat status)))
   \<and> (map_of kvs ''message'' = None \<longrightarrow>
        fst (buscarPorArtista (Response_not_ok status (Inr (JObj kvs))) termo log)
          = Inl (JsError (''Erro HTTP: '' @ show_nat status)))
   \<and> (map_of kvs ''message'' = None \<longrightarrow>
        fst (buscarPorAlbum (Response_not_ok status (Inr (JObj kvs))) termo log)
          = Inl (JsError (''Erro HTTP: '' @ show_nat status)))
   \<and> (map_of kvs ''message'' = None \<longrightarrow>
        fst (getStatsCores (Response_not_ok status (Inr (JObj kvs))) log)
          = Inl (JsError (''Erro HTTP: '' @ show_nat status)))
   \<and> (map_of kvs ''message'' = None \<longrightarrow>
        fst (adicionarVinil (Response_not_ok status (Inr (JObj kvs))) data log)
          = Inl (JsError (''Erro HTTP: '' @ show_nat status)))
   \<and> (map_of kvs ''message'' = None \<longrightarrow>
        fst (atualizarVinil (Response_not_ok status (Inr (JObj kvs))) id_text data log)
          = Inl (JsError (''Erro HTTP: '' @ show_nat status)))
   \<and> (map_of kvs ''message'' = None \<longrightarrow>
        fst (deletarVinil (Response_not_ok status (Inr (JObj kvs))) i log)
          = Inl (JsError (''Erro HTTP: '' @ show_nat status)))
   \<and> (map_of kvs ''message'' = Some v \<and> \<not> truthy v \<longrightarrow>
        fst (getVinis (Response_not_ok status (Inr (JObj kvs))) log)
          = Inl (JsError (''Erro HTTP: '' @ show_nat status)))
   \<and> (map_of kvs ''message'' = Some v \<and> \<not> truthy v \<longrightarrow>
        fst (getVinilById (Response_not_ok status (Inr (JObj kvs))) i log)
          = Inl (JsError (''Erro HTTP: '' @ show_nat status)))
   \<and> (map_of kvs ''message'' = Some v \<and> \<not> truthy v \<longrightarrow>
        fst (buscarPorArtista (Response_not_ok status (Inr (JObj kvs))) termo log)
          = Inl (JsError (''Erro HTTP: '' @ show_nat status)))
   \<and> (map_of kvs ''message'' = Some v \<and> \<not> truthy v \<longrightarrow>
        fst (buscarPorAlbum (Response_not_ok status (Inr (JObj kvs))) termo log)
          = Inl (JsError (''Erro HTTP: '' @ show_nat status)))
   \<and> (map_of kvs ''message'' = Some v \<and> \<not> truthy v \<longrightarrow>
        fst (getStatsCores (Response_not_ok status (Inr (JObj kvs))) log)
          = Inl (JsError (''Erro HTTP: '' @ show_nat status)))
   \<and> (map_of kvs ''message'' = Some v \<and> \<not> truthy v \<longrightarrow>
        fst (adicionarVinil (Response_not_ok status (Inr (JObj kvs))) data log)
          = Inl (JsError (''Erro HTTP: '' @ show_nat status)))
   \<and> (map_of kvs ''message'' = Some v \<and> \<not> truthy v \<longrightarrow>
        fst (atualizarVinil (Response_not_ok status (Inr (JObj kvs))) id_text data log)
          = Inl (JsError (''Erro HTTP: '' @ show_nat status)))
   \<and> (map_of kvs ''message'' = Some v \<and> \<not> truthy v \<longrightarrow>
        fst (deletarVinil (Response_not_ok status (Inr (JObj kvs))) i log)
          = Inl (JsError (''Erro HTTP: '' @ show_nat status)))
   \<and> (map_of kvs ''message'' = Some (JStr (c # m)) \<longrightarrow>
        fst (getVinis (Response_not_ok status (Inr (JObj kvs))) log)
          = Inl (JsError (c # m)))
   \<and> (map_of kvs ''message'' = Some (JStr (c # m)) \<longrightarrow>
        fst (getVinilById (Response_not_ok status (Inr (JObj kvs))) i log)
          = Inl (JsError (c # m)))
   \<and> (map_of kvs ''message'' = Some (JStr (c # m)) \<longrightarrow>
        fst (buscarPorArtista (Response_not_ok status (Inr (JObj kvs))) termo log)
          = Inl (JsError (c # m)))
   \<and> (map_of kvs ''message'' = Some (JStr (c # m)) \<longrightarrow>
        fst (buscarPorAlbum (Response_not_ok status (Inr (JObj kvs))) termo log)
          = Inl (JsError (c # m)))
   \<and> (map_of kvs ''message'' = Some (JStr (c # m)) \<longrightarrow>
        fst (getStatsCores (Response_not_ok status (Inr (JObj kvs))) log)
          = Inl (JsError (c # m)))
   \<and> (map_of kvs ''message'' = Some (JStr (c # m)) \<longrightarrow>
        fst (adicionarVinil (Response_not_ok status (Inr (JObj kvs))) data log)
          = Inl (JsError (c # m)))
   \<and> (map_of kvs ''message'' = Some (JStr (c # m)) \<longrightarrow>
        fst (atualizarVinil (Response_not_ok status (Inr (JObj kvs))) id_text data log)
          = Inl (JsError (c # m)))
   \<and> (map_of kvs ''message'' = Some (JStr (c # m)) \<longrightarrow>
        fst (deletarVinil (Response_not_ok status (Inr (JObj kvs))) i log)
          = Inl (JsError (c # m)))
   \<and> (\<exists>err. fst (getVinis (Response_not_ok status body) log) = Inl err)
   \<and> (\<exists>err. fst (getVinilById (Response_not_ok status body) i log) = Inl err)
   \<and> (\<exists>err. fst (buscarPorArtista (Response_not_ok status body) termo log) = Inl err)
   \<and> (\<exists>err. fst (buscarPorAlbum (Response_not_ok status body) termo log) = Inl err)
   \<and> (\<exists>err. fst (getStatsCores (Response_not_ok status body) log) = Inl err)
   \<and> (\<exists>err. fst (adicionarVinil (Response_not_ok status body) data log) = Inl err)
   \<and> (\<exists>err. fst (atualizarVinil (Response_not_ok status body) id_text data log) = Inl err)
   \<and> (\<exists>err. fst (deletarVinil (Response_not_ok status body) i log) = Inl err)
   \<and> (fst (getVinilById (Response_not_ok status body) i log) = Inl err
        \<longleftrightarrow> fst (getVinis (Response_not_ok status body) log) = Inl err)
   \<and> (fst (buscarPorArtista (Response_not_ok status body) termo log) = Inl err
        \<longleftrightarrow> fst (getVinis (Response_not_ok status body) log) = Inl err)
   \<and> (fst (buscarPorAlbum (Response_not_ok status body) termo log) = Inl err
        \<longleftrightarrow> fst (getVinis (Response_not_ok status body) log) = Inl err)
   \<and> (fst (getStatsCores (Response_not_ok status body) log) = Inl err
        \<longleftrightarrow> fst (getVinis (Response_not_ok status body) log) = Inl err)
   \<and> (fst (adicionarVinil (Response_not_ok status body) data log) = Inl err
        \<longleftrightarrow> fst (getVinis (Response_not_ok status body) log) = Inl err)
   \<and> (fst (atualizarVinil (Response_not_ok status body) id_text data log) = Inl err
        \<longleftrightarrow> fst (getVinis (Response_not_ok status body) log) = Inl err)
   \<and> (fst (deletarVinil (Response_not_ok status body) i log) = Inl err
        \<longleftrightarrow> fst (getVinis (Response_not_ok status body) log) = Inl err)
   \<and> (fst (getVinilById outcome_a i log) = Inl err \<longrightarrow>
        fst (api_compararPrensagens outcome_a outcome_b i j log) = Inl err)
   \<and> (fst (getVinilById outcome_a i log) = Inr vinilA \<and> fst (getVinilById outcome_b j log) = Inl err \<longrightarrow>
        fst (api_compararPrensagens outcome_a outcome_b i j log) = Inl err)"
proof -
  have ok: "fst (fetchAPI (Response_ok 204 q) ep os l) = Inr Empty_object"
    for q :: "js_error + 'x" and ep os l
    by (simp add: fetchAPI_def Let_def)
  have tf: "fst (fetchAPI (Transport_failure e :: 'y fetch_outcome) ep os l) = Inl e" for ep os l
    by (simp add: fetchAPI_def Let_def)
  have plain: "fst (fetchAPI (Response_not_ok status (Inl e') :: 'u fetch_outcome) ep os l)
        = Inl (JsError (''Erro HTTP: '' @ show_nat status))" for ep os l
    by (simp add: fetchAPI_def Let_def http_error_message_def)
  have none: "map_of kvs ''message'' = None \<longrightarrow>
      fst (fetchAPI (Response_not_ok status (Inr (JObj kvs)) :: 'v fetch_outcome) ep os l)
        = Inl (JsError (''Erro HTTP: '' @ show_nat status))" for ep os l
    by (simp add: fetchAPI_def Let_def http_error_message_def)
  have falsy: "map_of kvs ''message'' = Some v \<and> \<not> truthy v \<longrightarrow>
      fst (fetchAPI (Response_not_ok status (Inr (JObj kvs)) :: 't fetch_outcome) ep os l)
        = Inl (JsError (''Erro HTTP: '' @ show_nat status))" for ep os l
    by (simp add: fetchAPI_def Let_def http_error_message_def)
  have msg: "map_of kvs ''message'' = Some (JStr (c # m)) \<longrightarrow>
      fst (fetchAPI (Response_not_ok status (Inr (JObj kvs)) :: 'w fetch_outcome) ep os l)
        = Inl (JsError (c # m))" for ep os l
    by (simp add: fetchAPI_def Let_def http_error_message_def)
  have nok: "\<exists>err. fst (fetchAPI (Response_not_ok status body :: 'z fetch_outcome) ep os l) = Inl err"
    for ep os l
    by (cases "get_message (case body of Inl _ \<Rightarrow> JObj [] | Inr j \<Rightarrow> j)")
      (simp_all add: fetchAPI_def Let_def)
  have same: "fst (fetchAPI (Response_not_ok status body :: 'r fetch_outcome) ep os l) = Inl err
      \<longleftrightarrow> fst (fetchAPI (Response_not_ok status body :: 's fetch_outcome) ep' os' l') = Inl err"
    for ep os l ep' os' l'
    by (cases "get_message (case body of Inl _ \<Rightarrow> JObj [] | Inr j \<Rightarrow> j)")
      (simp_all add: fetchAPI_def Let_def)
  have c1: "fst (getVinilById outcome_a i log) = Inl err \<longrightarrow>
        fst (api_compararPrensagens outcome_a outcome_b i j log) = Inl err"
    by (simp add: api_compararPrensagens_def split_beta)
  have c2: "fst (getVinilById outcome_a i log) = Inr vinilA \<and> fst (getVinilById outcome_b j log) = Inl err \<longrightarrow>
        fst (api_compararPrensagens outcome_a outcome_b i j log) = Inl err"
  proof
    assume a: "fst (getVinilById outcome_a i log) = Inr vinilA \<and> fst (getVinilById outcome_b j log) = Inl err"
    have "fst (getVinilById outcome_b j (snd (getVinilById outcome_a i log)))
        = fst (getVinilById outcome_b j log)"
      unfolding getVinilById_def by (rule fetch_result_log)
    with a show "fst (api_compararPrensagens outcome_a outcome_b i j log) = Inl err"
      by (simp add: api_compararPrensagens_def split_beta)
  qed
  show ?thesis
    apply (intro conjI c1 c2)
    apply (unfold getVinis_def getVinilById_def buscarPorArtista_def buscarPorAlbum_def
      getStatsCores_def adicionarVinil_def atualizarVinil_def deletarVinil_def)
    apply (rule ok tf plain none falsy msg nok same)+
    done
qed

theorem gateway_uniform_failure_witness:
  "fst (getVinilById (Response_not_ok 404 (Inr (JObj [(''message'', JStr ''Vinil not found'')])))
          (Finite 7) [])
     = Inl (JsError ''Vinil not found'')
   \<and> fst (getStatsCores (Response_not_ok 500 (Inr (JObj [(''error'', JStr ''Internal Server Error'')]))) [])
     = Inl (JsError ''Erro HTTP: 500'')
   \<and> fst (adicionarVinil (Response_not_ok 400 (Inr (JObj [(''message'', JStr [])])))
            \<lparr>artista = ''Pink Floyd'', album = ''Animals'', cor_prensagem = ''Preto'',
              ano = Finite 1977, midia = ''LP'', selo = Null, capa = Undefined\<rparr> [])
     = Inl (JsError ''Erro HTTP: 400'')
   \<and> fst (api_compararPrensagens
            (Transport_failure (JsError ''Failed to fetch''))
            (Response_ok 200 (Inr (example_vinil 2 ''Pink Floyd'' ''Meddle'')))
            (Finite 1) (Finite 2) [])
     = Inl (JsError ''Failed to fetch'')
   \<and> fst (api_compararPrensagens
            (Response_ok 200 (Inr (example_vinil 1 ''Pink Floyd'' ''Animals'')))
            (Response_not_ok 404 (Inr (JObj [(''message'', JStr ''Vinil not found'')])))
            (Finite 1) (Finite 2) [])
     = Inl (JsError ''Vinil not found'')"
  using
    gateway_uniform_failure
      [where kvs = "[(''message'', JStr [])]" and v = "JStr []" and status = 400 and log = "[]"
         and data = "\<lparr>artista = ''Pink Floyd'', album = ''Animals'', cor_prensagem = ''Preto'',
              ano = Finite 1977, midia = ''LP'', selo = Null, capa = Undefined\<rparr>"]
    gateway_uniform_failure
      [where outcome_a = "Transport_failure (JsError ''Failed to fetch'')"
         and outcome_b = "Response_ok 200 (Inr (example_vinil 2 ''Pink Floyd'' ''Meddle''))"
         and i = "Finite 1" and j = "Finite 2" and log = "[]"
         and err = "JsError ''Failed to fetch''"]
    gateway_uniform_failure
      [where kvs = "[(''message'', JStr ''Vinil not found'')]" and c = "CHR ''V''"
         and m = "''inil not found''" and status = 404 and i = "Finite 7" and log = "[]"]
    gateway_uniform_failure
      [where kvs = "[(''error'', JStr ''Internal Server Error'')]" and status = 500 and log = "[]"]
    gateway_uniform_failure
      [where outcome_a = "Response_ok 200 (Inr (example_vinil 1 ''Pink Floyd'' ''Animals''))"
         and outcome_b = "Response_not_ok 404 (Inr (JObj [(''message'', JStr ''Vinil not found'')]))"
         and i = "Finite 1" and j = "Finite 2" and log = "[]"
         and vinilA = "Json (example_vinil 1 ''Pink Floyd'' ''Animals'')"
         and err = "JsError ''Vinil not found''"]
  by (simp add: getVinilById_def fetchAPI_def http_error_message_def show_nat_digit show_nat_more
      digit_chars)

text \<open>
  C7, as stated, fails.  The combined search is an operation of the gateway: when the
  transport fails for both of its requests it resolves to the empty list, and the health
  check answers \<open>false\<close>.  And the message need not be one that a person can read: a
  body whose \<open>message\<close> is an empty array gives the empty message, one whose \<open>message\<close>
  is an object gives \<open>[object Object]\<close>, and the body \<open>null\<close> gives the message of
  the \<open>TypeError\<close> that reading its \<open>message\<close> throws.
\<close>

theorem gateway_failure_counterexample:
  "fst (api_buscarVinis (Transport_failure (JsError ''Failed to fetch''))
          (Transport_failure (JsError ''Failed to fetch'')) ''floyd'' []) = Inr []
   \<and> fst (checkAPIHealth (Transport_failure (JsError ''Failed to fetch'') :: unit fetch_outcome) []) = False
   \<and> fst (getVinis (Response_not_ok 500 (Inr (JObj [(''message'', JArr [])]))) []) = Inl (JsError [])
   \<and> fst (getVinis (Response_not_ok 500 (Inr (JObj [(''message'', JObj [(''code'', JNum 7)])]))) [])
       = Inl (JsError ''[object Object]'')
   \<and> fst (getVinis (Response_not_ok 500 (Inr JNull)) [])
       = Inl (JsError ''Cannot read properties of null (reading 'message')'')"
  by (simp add: api_buscarVinis_def buscarPorArtista_def buscarPorAlbum_def fetchAPI_def spread_def
      vinisUnicos_def new_Map_def Map_values_def checkAPIHealth_def getVinis_def
      http_error_message_def null_property_error_def)

subsection \<open>Comparison\<close>

text \<open>
  C10.  Each flag of the difference map is true exactly when the two Records differ in that
  field, where a property that is \<open>null\<close> differs from one that is missing; the map of
  \<open>(A, B)\<close> is the map of \<open>(B, A)\<close>; comparing a Record with itself gives a map of
  false flags; and this is the map that \<open>compararPrensagens\<close> of \<open>api.js\<close> returns
  for the two Records it fetches.  Against the empty object of a 204 response, every property
  that the Record has differs.
\<close>

theorem comparar_flags:
  "diferencas (comparar (Json a) (Json b)) =
     \<lparr>dif_artista = (artista a \<noteq> artista b),
      dif_album = (album a \<noteq> album b),
      dif_cor_prensagem = (cor_prensagem a \<noteq> cor_prensagem b),
      dif_ano = (ano a \<noteq> ano b),
      dif_selo = (selo a \<noteq> selo b),
      dif_midia = (midia a \<noteq> midia b)\<rparr>
   \<and> diferencas (comparar x y) = diferencas (comparar y x)
   \<and> diferencas (comparar x x) =
       \<lparr>dif_artista = False, dif_album = False, dif_cor_prensagem = False, dif_ano = False,
        dif_selo = False, dif_midia = False\<rparr>
   \<and> fst (api_compararPrensagens (Response_ok 200 (Inr a)) (Response_ok 200 (Inr b)) idA idB log)
       = Inr (comparar (Json a) (Json b))
   \<and> dif_selo (diferencas (comparar (Json (a\<lparr>selo := Null\<rparr>)) (Json (a\<lparr>selo := Undefined\<rparr>))))
   \<and> dif_ano (diferencas (comparar (Json (a\<lparr>ano := Null\<rparr>)) (Json (a\<lparr>ano := Undefined\<rparr>))))
   \<and> diferencas (comparar Empty_object (Json b)) =
       \<lparr>dif_artista = True, dif_album = True, dif_cor_prensagem = True,
        dif_ano = (ano b \<noteq> Undefined), dif_selo = (selo b \<noteq> Undefined), dif_midia = True\<rparr>"
proof (intro conjI)
  show "diferencas (comparar (Json a) (Json b)) =
     \<lparr>dif_artista = (artista a \<noteq> artista b),
      dif_album = (album a \<noteq> album b),
      dif_cor_prensagem = (cor_prensagem a \<noteq> cor_prensagem b),
      dif_ano = (ano a \<noteq> ano b),
      dif_selo = (selo a \<noteq> selo b),
      dif_midia = (midia a \<noteq> midia b)\<rparr>"
    by (simp add: comparar_def property_def optional_property_def)
  show "diferencas (comparar x y) = diferencas (comparar y x)"
    by (simp add: comparar_def eq_commute)
  show "diferencas (comparar x x) =
       \<lparr>dif_artista = False, dif_album = False, dif_cor_prensagem = False, dif_ano = False,
        dif_selo = False, dif_midia = False\<rparr>"
    by (simp add: comparar_def)
  show "fst (api_compararPrensagens (Response_ok 200 (Inr a)) (Response_ok 200 (Inr b)) idA idB log)
       = Inr (comparar (Json a) (Json b))"
    by (simp add: api_compararPrensagens_def getVinilById_def fetchAPI_def Let_def)
  show "dif_selo (diferencas (comparar (Json (a\<lparr>selo := Null\<rparr>)) (Json (a\<lparr>selo := Undefined\<rparr>))))"
    by (simp add: comparar_def optional_property_def)
  show "dif_ano (diferencas (comparar (Json (a\<lparr>ano := Null\<rparr>)) (Json (a\<lparr>ano := Undefined\<rparr>))))"
    by (simp add: comparar_def optional_property_def)
  show "diferencas (comparar Empty_object (Json b)) =
       \<lparr>dif_artista = True, dif_album = True, dif_cor_prensagem = True,
        dif_ano = (ano b \<noteq> Undefined), dif_selo = (selo b \<noteq> Undefined), dif_midia = True\<rparr>"
    by (simp add: comparar_def property_def optional_property_def eq_commute)
qed

section \<open>Properties of the view\<close>

lemma bgStyle_Preto: "bgStyle_of ''Preto'' = Inr ''#1a1a1a''"
  by (simp add: bgStyle_of_def corMap_def)

lemma card_html_alt:
  \<open>str_includes (card_html v u k) (''" alt="'' @ album v @ ''" class="vinil-card-image">\<newline>'')\<close>
  unfolding card_html_def
  by (simp only: str_includes_here str_includes_later)

lemma details_html_alt:
  \<open>str_includes (details_html v u k) (''" alt="'' @ album v @ ''" class="detalhes-vinil-image">\<newline>'')\<close>
  unfolding details_html_def
  by (simp only: str_includes_here str_includes_later)

lemma card_placeholder_ok:
  "substring 0 15 (album v) = Some t \<Longrightarrow> \<exists>u. card_placeholder v g bg = Inr u"
  by (simp add: card_placeholder_def)

lemma details_placeholder_ok:
  "substring 0 20 (album v) = Some t \<Longrightarrow> \<exists>u. details_placeholder v g bg = Inr u"
  by (simp add: details_placeholder_def)

lemma createVinilCard_template:
  assumes "bgStyle_of (cor_prensagem v) = Inr bg" and "substring 0 15 (album v) = Some t"
  shows "\<exists>c u k. createVinilCard v = Inr c \<and> innerHTML c = card_html v u k"
proof -
  from card_placeholder_ok[OF assms(2)] obtain u
    where u: "card_placeholder v (str_includes bg ''gradient'') bg = Inr u" by blast
  show ?thesis
    using assms(1) u
    by (cases "capa v") (auto simp: createVinilCard_def Let_def)
qed

lemma createVinilDetailsHTML_template:
  assumes "bgStyle_of (cor_prensagem v) = Inr bg" and "substring 0 20 (album v) = Some t"
  shows "\<exists>u k. createVinilDetailsHTML v = Inr (details_html v u k)"
proof -
  from details_placeholder_ok[OF assms(2)] obtain u
    where u: "details_placeholder v (str_includes bg ''gradient'') bg = Inr u" by blast
  show ?thesis
    using assms(1) u by (auto simp: createVinilDetailsHTML_def Let_def)
qed

lemmas substring_simps = substring_def is_continuation_def code_units_def

text \<open>
  C1 does not hold of the code.  The title of a Record is written into the \<open>alt\<close>
  attribute of the image as it is, in the card and in the detail panel, although the same
  template escapes it two lines further down: for a Record whose title is
  \<open>"><img src=x onerror=alert(1)>\<close> the markup that both functions produce contains that
  title unescaped.
\<close>

theorem card_title_unescaped:
  \<open>(case createVinilCard (example_vinil 7 ''Pink Floyd'' ''"><img src=x onerror=alert(1)>'') of
      Inl e \<Rightarrow> False
    | Inr c \<Rightarrow> str_includes (innerHTML c) ''alt=""><img src=x onerror=alert(1)>"'')
   \<and> (case createVinilDetailsHTML (example_vinil 7 ''Pink Floyd'' ''"><img src=x onerror=alert(1)>'') of
      Inl e \<Rightarrow> False
    | Inr html \<Rightarrow> str_includes html ''alt=""><img src=x onerror=alert(1)>"'')\<close>
proof -
  let ?v = \<open>example_vinil 7 ''Pink Floyd'' ''"><img src=x onerror=alert(1)>''\<close>
  have bg: "bgStyle_of (cor_prensagem ?v) = Inr ''#1a1a1a''"
    by (simp add: bgStyle_Preto)
  have t15: \<open>substring 0 15 (album ?v) = Some ''"><img src=x on''\<close>
    by (simp add: substring_simps)
  have t20: \<open>substring 0 20 (album ?v) = Some ''"><img src=x onerror''\<close>
    by (simp add: substring_simps)
  from createVinilCard_template[OF bg t15] obtain c u k
    where c: "createVinilCard ?v = Inr c" and h: "innerHTML c = card_html ?v u k" by blast
  have \<open>str_includes (innerHTML c) (''" alt="'' @ album ?v @ ''" class="vinil-card-image">\<newline>'')\<close>
    unfolding h by (rule card_html_alt)
  then have \<open>str_includes (innerHTML c)
      (''" '' @ ''alt=""><img src=x onerror=alert(1)>"'' @ '' class="vinil-card-image">\<newline>'')\<close>
    by simp
  then have 1: \<open>str_includes (innerHTML c) ''alt=""><img src=x onerror=alert(1)>"''\<close>
    by (rule str_includes_inner)
  from createVinilDetailsHTML_template[OF bg t20] obtain u' k'
    where d: "createVinilDetailsHTML ?v = Inr (details_html ?v u' k')" by blast
  have \<open>str_includes (details_html ?v u' k') (''" alt="'' @ album ?v @ ''" class="detalhes-vinil-image">\<newline>'')\<close>
    by (rule details_html_alt)
  then have \<open>str_includes (details_html ?v u' k')
      (''" '' @ ''alt=""><img src=x onerror=alert(1)>"'' @ '' class="detalhes-vinil-image">\<newline>'')\<close>
    by simp
  then have 2: \<open>str_includes (details_html ?v u' k') ''alt=""><img src=x onerror=alert(1)>"''\<close>
    by (rule str_includes_inner)
  from 1 2 show ?thesis by (simp only: c d sum.case simp_thms)
qed

text \<open>
  C8, as amended.  For an absent and for an empty list, \<open>renderVinisGrid\<close> hides the
  loading indicator, empties the grid, shows the ``no results'' element, throws nothing and
  leaves the notification as it was; so does \<open>loadVinis\<close> when the list request
  succeeds with an empty list.  The empty object, which is what the gateway makes of a
  response with status 204, is not rendered as an empty list: \<open>renderVinisGrid\<close> hides
  the ``no results'' element and throws, and \<open>loadVinis\<close> shows the error notification.
\<close>

theorem empty_list_shows_no_results:
  "renderVinisGrid None w
     = (None, w\<lparr>loading_display := ''none'', vinis_grid := [], no_results_display := ''flex''\<rparr>)
   \<and> renderVinisGrid (Some (Json [])) w
     = (None, w\<lparr>loading_display := ''none'', vinis_grid := [], no_results_display := ''flex''\<rparr>)
   \<and> vinis_grid (snd (renderVinisGrid None w)) = []
   \<and> vinis_grid (snd (renderVinisGrid (Some (Json [])) w)) = []
   \<and> no_results_display (snd (renderVinisGrid None w)) = ''flex''
   \<and> no_results_display (snd (renderVinisGrid (Some (Json [])) w)) = ''flex''
   \<and> notifications (snd (renderVinisGrid None w)) = notifications w
   \<and> notifications (snd (renderVinisGrid (Some (Json [])) w)) = notifications w
   \<and> vinis_grid (loadVinis (Response_ok 200 (Inr [])) w) = []
   \<and> no_results_display (loadVinis (Response_ok 200 (Inr [])) w) = ''flex''
   \<and> notifications (loadVinis (Response_ok 200 (Inr [])) w) = notifications w
   \<and> renderVinisGrid (Some Empty_object) w
     = (Some (JsError ''vinis.forEach is not a function''),
        w\<lparr>loading_display := ''none'', vinis_grid := [], no_results_display := ''none''\<rparr>)
   \<and> vinis_grid (loadVinis (Response_ok 204 p) w) = []
   \<and> no_results_display (loadVinis (Response_ok 204 p) w) = ''none''
   \<and> notifications (loadVinis (Response_ok 204 p) w)
     = notifications (showError (''N'' @ [CHR 0xC3, CHR 0xA3] @ ''o foi poss'' @ [CHR 0xC3, CHR 0xAD] @ ''vel carregar os vinis. Verifique se a API est'' @ [CHR 0xC3, CHR 0xA1] @ '' rodando.'') w)"
  by (simp add: renderVinisGrid_def loadVinis_def showLoading_def getVinis_def fetchAPI_def
      showError_def showNotification_def)

text \<open>
  C8, as stated, fails for the list that a response without content stands for: after a list
  request answered with status 204 the ``no results'' element is hidden and the notification
  is the error notification.
\<close>

theorem empty_answer_counterexample:
  "no_results_display
     (loadVinis (Response_ok 204 (Inr [])) (example_world [] [] [] (example_form [] [] []))) = ''none''
   \<and> map_option notification_className
       (notifications
          (loadVinis (Response_ok 204 (Inr [])) (example_world [] [] [] (example_form [] [] []))))
     = Some ''notification notification-error''"
  by (simp add: renderVinisGrid_def loadVinis_def showLoading_def getVinis_def fetchAPI_def
      showError_def showNotification_def)

section \<open>Properties of the coordinator\<close>







subsection \<open>Statistics\<close>

lemma loadStats_failed:
  assumes "fst (getStatsCores outcome (requests w)) = Inl e"
  shows "loadStats dump outcome w =
           showError (''N'' @ [CHR 0xC3, CHR 0xA3] @ ''o foi poss'' @ [CHR 0xC3, CHR 0xAD] @ ''vel carregar as estat'' @ [CHR 0xC3, CHR 0xAD] @ ''sticas.'')
             ((showStatsLoading w)\<lparr>requests := snd (getStatsCores outcome (requests w))\<rparr>)"
proof -
  have r: "requests (showStatsLoading w) = requests w"
    by (simp add: showStatsLoading_def)
  obtain res log where g: "getStatsCores outcome (requests w) = (res, log)"
    by (cases "getStatsCores outcome (requests w)")
  with assms have "res = Inl e" by simp
  with g show ?thesis by (simp add: loadStats_def r)
qed

text \<open>
  C4, as amended.  When the statistics request fails, an error notification is shown and the
  statistics panel is not blank: it holds the loading placeholder that \<open>loadStats\<close> put
  in the place of the previous content before it issued the request.  Nothing else changes
  but the log of requests.
\<close>

theorem stats_failure_keeps_placeholder:
  \<open>fst (getStatsCores outcome (requests w)) = Inl e \<longrightarrow>
     stats_container (loadStats dump outcome w)
       = ''<div class="stats-loading">Carregando estat'' @ [CHR 0xC3, CHR 0xAD] @ ''sticas...</div>''
     \<and> stats_container (loadStats dump outcome w) \<noteq> []
     \<and> notifications (loadStats dump outcome w)
       = notifications (showError (''N'' @ [CHR 0xC3, CHR 0xA3] @ ''o foi poss'' @ [CHR 0xC3, CHR 0xAD] @ ''vel carregar as estat'' @ [CHR 0xC3, CHR 0xAD] @ ''sticas.'') w)
     \<and> notifications (loadStats dump outcome w) \<noteq> None
     \<and> loadStats dump outcome w =
         showError (''N'' @ [CHR 0xC3, CHR 0xA3] @ ''o foi poss'' @ [CHR 0xC3, CHR 0xAD] @ ''vel carregar as estat'' @ [CHR 0xC3, CHR 0xAD] @ ''sticas.'')
           ((showStatsLoading w)\<lparr>requests := snd (getStatsCores outcome (requests w))\<rparr>)\<close>
proof
  assume a: "fst (getStatsCores outcome (requests w)) = Inl e"
  note eq = loadStats_failed[OF a, of dump]
  show \<open>stats_container (loadStats dump outcome w)
       = ''<div class="stats-loading">Carregando estat'' @ [CHR 0xC3, CHR 0xAD] @ ''sticas...</div>''
     \<and> stats_container (loadStats dump outcome w) \<noteq> []
     \<and> notifications (loadStats dump outcome w)
       = notifications (showError (''N'' @ [CHR 0xC3, CHR 0xA3] @ ''o foi poss'' @ [CHR 0xC3, CHR 0xAD] @ ''vel carregar as estat'' @ [CHR 0xC3, CHR 0xAD] @ ''sticas.'') w)
     \<and> notifications (loadStats dump outcome w) \<noteq> None
     \<and> loadStats dump outcome w =
         showError (''N'' @ [CHR 0xC3, CHR 0xA3] @ ''o foi poss'' @ [CHR 0xC3, CHR 0xAD] @ ''vel carregar as estat'' @ [CHR 0xC3, CHR 0xAD] @ ''sticas.'')
           ((showStatsLoading w)\<lparr>requests := snd (getStatsCores outcome (requests w))\<rparr>)\<close>
    unfolding eq by (simp add: showError_def showNotification_def showStatsLoading_def)
qed

theorem stats_failure_keeps_placeholder_witness:
  \<open>stats_container
      (loadStats [] (Transport_failure (JsError ''Failed to fetch''))
         (example_world ''<div class="stats-grid"></div>'' [] [] (example_form [] [] [])))
     = ''<div class="stats-loading">Carregando estat'' @ [CHR 0xC3, CHR 0xAD] @ ''sticas...</div>''
   \<and> notifications
      (loadStats [] (Transport_failure (JsError ''Failed to fetch''))
         (example_world ''<div class="stats-grid"></div>'' [] [] (example_form [] [] []))) \<noteq> None\<close>
  using stats_failure_keeps_placeholder
    [where outcome = "Transport_failure (JsError ''Failed to fetch'')"
       and e = "JsError ''Failed to fetch''" and dump = "[]"
       and w = \<open>example_world ''<div class="stats-grid"></div>'' [] [] (example_form [] [] [])\<close>]
  by (simp add: getStatsCores_def fetchAPI_def showError_def showNotification_def showStatsLoading_def)

text \<open>
  C4, as stated, fails: after a successful load has rendered the statistics, a load that
  fails leaves a panel that differs from the one rendered before.
\<close>

theorem stats_failure_counterexample:
  \<open>stats_container
      (loadStats [] (Transport_failure (JsError ''Failed to fetch''))
         (loadStats ''{\<newline>  "total_vinis": 12\<newline>}''
            (Response_ok 200 (Inr \<lparr>total_vinis = Some 12, por_cor = None, por_artista = None\<rparr>))
            (example_world [] [] [] (example_form [] [] []))))
     \<noteq> stats_container
         (loadStats ''{\<newline>  "total_vinis": 12\<newline>}''
            (Response_ok 200 (Inr \<lparr>total_vinis = Some 12, por_cor = None, por_artista = None\<rparr>))
            (example_world [] [] [] (example_form [] [] [])))\<close>
  by (simp add: loadStats_def getStatsCores_def fetchAPI_def showStatsLoading_def renderStats_def
      showError_def showNotification_def)

subsection \<open>Comparison\<close>






subsection \<open>The form\<close>













end
